theory Spec2Isabelle
  imports Complex_Main
begin

section \<open>Numbers and the Math library\<close>

text \<open>
  The component \<^verbatim>\<open>src/components/BlackHole.tsx\<close> computes with JavaScript numbers.
  Rounding is outside the model throughout.  In the geodesic solver a number is a real
  number; the solver leaves the reals only when it divides by zero, which is described
  at \<open>derivs\<close>.  In the scene the position of a laser is any JavaScript number, finite,
  infinite or \<^verbatim>\<open>NaN\<close>, and its angle is finite or \<^verbatim>\<open>NaN\<close>.  The file holds three
  successive versions of the component; the definitions below follow the second one (the
  one with pan, zoom, the gravity switch and the coordinate editor).
\<close>

text \<open>\<^verbatim>\<open>Math.hypot(a, b)\<close>.\<close>

definition hypot :: "real \<Rightarrow> real \<Rightarrow> real" where
  "hypot a b = sqrt (a * a + b * b)"

text \<open>\<^verbatim>\<open>Math.atan2(b, a)\<close>, the polar angle of the point \<open>(a, b)\<close>, in \<open>(-\<pi>, \<pi>]\<close>, and \<open>0\<close> at the origin.\<close>

definition atan2 :: "real \<Rightarrow> real \<Rightarrow> real" where
  "atan2 b a =
     (if 0 < a then arctan (b / a)
      else if a < 0 then (if 0 \<le> b then arctan (b / a) + pi else arctan (b / a) - pi)
      else if 0 < b then pi / 2
      else if b < 0 then - (pi / 2)
      else 0)"

section \<open>The geodesic solver\<close>

text \<open>An element of the array returned by \<^verbatim>\<open>calculateLightPath\<close>: \<^verbatim>\<open>{x, y, distToCenter}\<close>.\<close>

record point =
  point_x :: real
  point_y :: real
  distToCenter :: real

type_synonym vec3 = "real \<times> real \<times> real"

text \<open>The helper \<^verbatim>\<open>rk4\<close>: one classical Runge-Kutta step of size \<open>h\<close> on \<open>[r, \<phi>, p_r]\<close>.\<close>

definition rk4 :: "vec3 \<Rightarrow> real \<Rightarrow> (vec3 \<Rightarrow> vec3) \<Rightarrow> vec3" where
  "rk4 y h derivs =
     (case y of (y0, y1, y2) \<Rightarrow>
      case derivs y of (k10, k11, k12) \<Rightarrow>
      case derivs (y0 + 0.5 * h * k10, y1 + 0.5 * h * k11, y2 + 0.5 * h * k12) of (k20, k21, k22) \<Rightarrow>
      case derivs (y0 + 0.5 * h * k20, y1 + 0.5 * h * k21, y2 + 0.5 * h * k22) of (k30, k31, k32) \<Rightarrow>
      case derivs (y0 + h * k30, y1 + h * k31, y2 + h * k32) of (k40, k41, k42) \<Rightarrow>
        (y0 + (h / 6) * (k10 + 2 * k20 + 2 * k30 + k40),
         y1 + (h / 6) * (k11 + 2 * k21 + 2 * k31 + k41),
         y2 + (h / 6) * (k12 + 2 * k22 + 2 * k32 + k42)))"

text \<open>
  The closure \<^verbatim>\<open>derivs\<close>; \<open>effectiveRs\<close> and \<open>L\<close> are the two constants it captures.
  It divides by powers of \<open>r\<close>.  At \<open>r = 0\<close> the code gets an infinity or \<^verbatim>\<open>NaN\<close>, which
  spreads to the coordinates of the points that are pushed afterwards; here a division
  by zero has the value \<open>0\<close>.  So the model gives the points that the code computes only
  for a path none of whose Runge-Kutta stages is evaluated at \<open>r = 0\<close>, and the paths
  that are evaluated below are such paths.
\<close>

definition derivs :: "real \<Rightarrow> real \<Rightarrow> vec3 \<Rightarrow> vec3" where
  "derivs effectiveRs L y =
     (case y of (r, phi, p_r) \<Rightarrow>
        let dVdr = L * L * (- 2 / (r ^ 3) + (3 * effectiveRs) / (r ^ 4))
        in (p_r, L / (r * r), - 0.5 * dVdr))"

definition maxSteps :: nat where
  "maxSteps = 4000"

text \<open>The constants the integration loop reads.\<close>

record loop_env =
  env_width :: real
  env_height :: real
  env_zoom :: real
  env_centerX :: real
  env_centerY :: real
  env_effectiveRs :: real
  env_L :: real
  env_h :: real
  env_maxDistance :: real

text \<open>The two \<^verbatim>\<open>break\<close> conditions of the loop, in the order the loop tests them.\<close>

definition crossesHorizon :: "loop_env \<Rightarrow> vec3 \<Rightarrow> bool" where
  "crossesHorizon E y = (case y of (r, phi, pr) \<Rightarrow> r \<le> env_effectiveRs E * 1.001)"

definition xPix :: "loop_env \<Rightarrow> vec3 \<Rightarrow> real" where
  "xPix E y = (case y of (r, phi, pr) \<Rightarrow> r * cos phi + env_centerX E)"

definition yPix :: "loop_env \<Rightarrow> vec3 \<Rightarrow> real" where
  "yPix E y = (case y of (r, phi, pr) \<Rightarrow> r * sin phi + env_centerY E)"

definition leavesCanvas :: "loop_env \<Rightarrow> vec3 \<Rightarrow> bool" where
  "leavesCanvas E y =
     (let distFromCenter = hypot (xPix E y - env_centerX E) (yPix E y - env_centerY E);
          factor = 1 / env_zoom E
      in distFromCenter > env_maxDistance E \<or>
         xPix E y < - factor * env_width E \<or> xPix E y > env_width E * factor \<or>
         yPix E y < - factor * env_height E \<or> yPix E y > env_height E * factor)"

text \<open>
  The \<^verbatim>\<open>for (let step = 0; step < maxSteps; step++)\<close> loop, from the state it has at the
  head of iteration \<open>step\<close>: the state vector \<open>yState\<close> and the array \<open>points\<close> built so far.
\<close>

function integrate :: "loop_env \<Rightarrow> nat \<Rightarrow> vec3 \<Rightarrow> point list \<Rightarrow> point list" where
  "integrate E step yState points =
     (if step < maxSteps then
        (if crossesHorizon E yState then points
         else if leavesCanvas E yState then points
         else integrate E (step + 1)
                (rk4 yState (env_h E) (derivs (env_effectiveRs E) (env_L E)))
                (points @ [\<lparr>point_x = xPix E yState, point_y = yPix E yState,
                            distToCenter = env_zoom E\<rparr>]))
      else points)"
  by pat_completeness auto
termination
  by (relation "measure (\<lambda>(E, step, yState, points). maxSteps - step)") auto

declare integrate.simps [simp del]

definition effectiveRs_of :: "real \<Rightarrow> bool \<Rightarrow> real" where
  "effectiveRs_of bhSize gravityEnabled =
     (let rs = bhSize * 0.25; massFactor = (if gravityEnabled then 1 else 0)
      in rs * massFactor)"

text \<open>The initial state vector \<open>[r0, phi0, p_r0]\<close> and the conserved \<open>L\<close>.\<close>

definition initial_yState :: "real \<Rightarrow> real \<Rightarrow> real \<Rightarrow> real \<Rightarrow> real \<Rightarrow> vec3" where
  "initial_yState startX startY angleDeg width height =
     (let centerX = width / 2; centerY = height / 2;
          relX0 = startX - centerX; relY0 = startY - centerY;
          r0 = hypot relX0 relY0; phi0 = atan2 relY0 relX0;
          angle = (angleDeg * pi) / 180;
          vx = cos angle; vy = sin angle;
          n_r = vx * cos phi0 + vy * sin phi0;
          p_r0 = n_r
      in (r0, phi0, p_r0))"

definition angular_momentum :: "real \<Rightarrow> real \<Rightarrow> real \<Rightarrow> real \<Rightarrow> real \<Rightarrow> real" where
  "angular_momentum startX startY angleDeg width height =
     (let centerX = width / 2; centerY = height / 2;
          relX0 = startX - centerX; relY0 = startY - centerY;
          r0 = hypot relX0 relY0; phi0 = atan2 relY0 relX0;
          angle = (angleDeg * pi) / 180;
          vx = cos angle; vy = sin angle;
          n_phi = - vx * sin phi0 + vy * cos phi0
      in n_phi * r0)"

definition solver_env :: "real \<Rightarrow> real \<Rightarrow> real \<Rightarrow> real \<Rightarrow> real \<Rightarrow> real \<Rightarrow> real \<Rightarrow> bool \<Rightarrow> loop_env" where
  "solver_env startX startY angleDeg width height bhSize zoom gravityEnabled =
     \<lparr>env_width = width, env_height = height, env_zoom = zoom,
      env_centerX = width / 2, env_centerY = height / 2,
      env_effectiveRs = effectiveRs_of bhSize gravityEnabled,
      env_L = angular_momentum startX startY angleDeg width height,
      env_h = (bhSize * 0.25) * 0.01,
      env_maxDistance = max width height * (1.5 / zoom)\<rparr>"

definition calculateLightPath ::
  "real \<Rightarrow> real \<Rightarrow> real \<Rightarrow> real \<Rightarrow> real \<Rightarrow> real \<Rightarrow> real \<Rightarrow> bool \<Rightarrow> point list" where
  "calculateLightPath startX startY angleDeg width height bhSize zoom gravityEnabled =
     integrate (solver_env startX startY angleDeg width height bhSize zoom gravityEnabled) 0
       (initial_yState startX startY angleDeg width height) []"

section \<open>The scene and the interaction handlers\<close>

text \<open>
  A number that comes from a text field can be any JavaScript number: \<^verbatim>\<open>parseFloat\<close>
  returns \<^verbatim>\<open>Infinity\<close> for the strings \<^verbatim>\<open>Infinity\<close> and \<^verbatim>\<open>1e999\<close>, and the guard of the
  editor only rejects \<^verbatim>\<open>NaN\<close>.  Such a number is finite (a real), one of the two
  infinities, or \<^verbatim>\<open>NaN\<close>.  The two zeros are not told apart.
\<close>

datatype num = Fin real | PInf | NInf | NaN

text \<open>\<^verbatim>\<open>- a\<close>, and \<^verbatim>\<open>a * b\<close> and \<^verbatim>\<open>a / b\<close> for a finite \<open>b\<close> (a zero \<open>b\<close> being \<open>+0\<close>).\<close>

definition js_neg :: "num \<Rightarrow> num" where
  "js_neg a = (case a of Fin v \<Rightarrow> Fin (- v) | PInf \<Rightarrow> NInf | NInf \<Rightarrow> PInf | NaN \<Rightarrow> NaN)"

definition js_mul :: "num \<Rightarrow> real \<Rightarrow> num" where
  "js_mul a b =
     (case a of
        Fin v \<Rightarrow> Fin (v * b)
      | PInf \<Rightarrow> (if 0 < b then PInf else if b < 0 then NInf else NaN)
      | NInf \<Rightarrow> (if 0 < b then NInf else if b < 0 then PInf else NaN)
      | NaN \<Rightarrow> NaN)"

definition js_div :: "num \<Rightarrow> real \<Rightarrow> num" where
  "js_div a b =
     (case a of
        Fin v \<Rightarrow> (if b \<noteq> 0 then Fin (v / b)
                  else if 0 < v then PInf else if v < 0 then NInf else NaN)
      | PInf \<Rightarrow> (if b < 0 then NInf else PInf)
      | NInf \<Rightarrow> (if b < 0 then PInf else NInf)
      | NaN \<Rightarrow> NaN)"

text \<open>
  The remainder of a division, \<^verbatim>\<open>a % b\<close>, on finite numbers: the quotient is truncated
  towards zero, so the result has the sign of \<open>a\<close>.  The component only divides by \<open>360\<close>.
\<close>

definition js_rem :: "real \<Rightarrow> real \<Rightarrow> real" where
  "js_rem a b = a - b * of_int (if 0 \<le> a / b then \<lfloor>a / b\<rfloor> else \<lceil>a / b\<rceil>)"

text \<open>
  \<^verbatim>\<open>a % b\<close> for a finite \<open>b\<close> is never infinite: it is \<^verbatim>\<open>NaN\<close> when \<open>a\<close> is infinite or
  \<^verbatim>\<open>NaN\<close> or \<open>b\<close> is zero, and finite otherwise.  A number that is finite or \<^verbatim>\<open>NaN\<close> is a
  \<open>real option\<close>, with \<open>None\<close> for \<^verbatim>\<open>NaN\<close>; \<open>mod_num\<close> is \<^verbatim>\<open>%\<close> on any number,
  \<open>mod_angle\<close> the same on such a number, and \<open>add_angle\<close> adds a finite number to it.
\<close>

definition mod_num :: "num \<Rightarrow> real \<Rightarrow> real option" where
  "mod_num a b =
     (case a of Fin v \<Rightarrow> (if b = 0 then None else Some (js_rem v b)) | PInf \<Rightarrow> None
      | NInf \<Rightarrow> None | NaN \<Rightarrow> None)"

definition mod_angle :: "real option \<Rightarrow> real \<Rightarrow> real option" where
  "mod_angle a b = (case a of Some v \<Rightarrow> mod_num (Fin v) b | None \<Rightarrow> None)"

definition add_angle :: "real option \<Rightarrow> real \<Rightarrow> real option" where
  "add_angle a b = (case a of Some v \<Rightarrow> Some (v + b) | None \<Rightarrow> None)"

definition normalizeAngle :: "real option \<Rightarrow> real option" where
  "normalizeAngle angle = mod_angle (add_angle (mod_angle angle 360) 360) 360"

text \<open>
  The type \<^verbatim>\<open>Laser\<close>.  Its fields \<^verbatim>\<open>id, x, y, fired, angle, direction\<close> carry the prefix
  \<open>laser_\<close> here, and \<^verbatim>\<open>id\<close> is an integer.  The position is any number.  The angle is
  finite or \<^verbatim>\<open>NaN\<close>: the component writes the field in three places, with \<open>0\<close> or \<open>90\<close>
  and with the result of a \<^verbatim>\<open>% 360\<close>.
\<close>

datatype direction = Left | Right

record laser =
  laser_id :: int
  laser_x :: num
  laser_y :: num
  laser_fired :: bool
  laser_angle :: "real option"
  laser_direction :: direction

text \<open>The three text fields of the coordinate editor, \<^verbatim>\<open>tempInputValues\<close>.\<close>

datatype field = Field_x | Field_y | Field_angle

record input_values =
  input_x :: string
  input_y :: string
  input_angle :: string

text \<open>
  The state of \<^verbatim>\<open>BlackHoleComponent\<close>: one field for each \<^verbatim>\<open>useState\<close> cell that the
  handlers read or write (the star field, the language and the client flag only feed the
  rendering).
\<close>

record component_state =
  zoom :: real
  gravityEnabled :: bool
  showGrid :: bool
  editingLaserId :: "int option"
  tempInputValues :: input_values
  size_width :: real
  size_height :: real
  lasers :: "laser list"
  nextId :: int
  isDragging :: bool
  dragOffset :: "real \<times> real"
  draggedLaserId :: "int option"
  rotatingLaserId :: "int option"
  lastMouseX :: "real option"
  panOffset :: "real \<times> real"
  isPanning :: bool
  panStart :: "real \<times> real"
  wasPanning :: bool

definition initial_state :: component_state where
  "initial_state =
     \<lparr>zoom = 1, gravityEnabled = False, showGrid = False, editingLaserId = None,
      tempInputValues = \<lparr>input_x = [], input_y = [], input_angle = []\<rparr>,
      size_width = 800, size_height = 800, lasers = [], nextId = 0,
      isDragging = False, dragOffset = (0, 0), draggedLaserId = None,
      rotatingLaserId = None, lastMouseX = None, panOffset = (0, 0),
      isPanning = False, panStart = (0, 0), wasPanning = False\<rparr>"

definition minZoom :: real where
  "minZoom = 0.2"

definition maxZoom :: real where
  "maxZoom = 2.5"

text \<open>The memoised values \<^verbatim>\<open>BH_SIZE\<close>, \<^verbatim>\<open>rs\<close> and \<^verbatim>\<open>BH_CENTER\<close>.\<close>

definition BH_SIZE :: "component_state \<Rightarrow> real" where
  "BH_SIZE s = min (min (size_width s) (size_height s)) 600"

definition rs :: "component_state \<Rightarrow> real" where
  "rs s = BH_SIZE s * 0.25"

definition BH_CENTER :: "component_state \<Rightarrow> real \<times> real" where
  "BH_CENTER s =
     (let playgroundWidth = size_width s * 0.8; playgroundHeight = size_height s
      in (playgroundWidth / 2, playgroundHeight / 2))"

text \<open>
  What a handler reads from a mouse event: the pointer position, the button, the two
  modifier keys, and the corner of \<^verbatim>\<open>e.currentTarget.getBoundingClientRect()\<close>.
\<close>

record mouse_event =
  clientX :: real
  clientY :: real
  button :: int
  shiftKey :: bool
  altKey :: bool
  rect_left :: real
  rect_top :: real

text \<open>
  Two functions of the JavaScript library that the handlers call are parameters of the
  model: \<^verbatim>\<open>parseFloat\<close> and \<^verbatim>\<open>Number.prototype.toFixed\<close>.
\<close>

record js_lib =
  parseFloat :: "string \<Rightarrow> num"
  toFixed :: "num \<Rightarrow> nat \<Rightarrow> string"

definition handleWheel :: "real \<Rightarrow> component_state \<Rightarrow> component_state" where
  "handleWheel deltaY s =
     (let next = zoom s - deltaY * 0.001;
          next = (if next < minZoom then minZoom else next);
          next = (if next > maxZoom then maxZoom else next)
      in s\<lparr>zoom := next\<rparr>)"

text \<open>The world position \<^verbatim>\<open>(relativeX, relativeY)\<close> of the pointer.\<close>

definition relativeX :: "mouse_event \<Rightarrow> component_state \<Rightarrow> real" where
  "relativeX e s = (clientX e - rect_left e - fst (BH_CENTER s) - fst (panOffset s)) / zoom s"

definition relativeY :: "mouse_event \<Rightarrow> component_state \<Rightarrow> real" where
  "relativeY e s = (clientY e - rect_top e - snd (BH_CENTER s) - snd (panOffset s)) / zoom s"

definition handleCanvasClick :: "mouse_event \<Rightarrow> component_state \<Rightarrow> component_state" where
  "handleCanvasClick e s =
     (if wasPanning s then s\<lparr>wasPanning := False\<rparr>
      else if isDragging s \<or> isPanning s then s
      else
        let distanceFromCenter = hypot (relativeX e s) (relativeY e s);
            blackHoleRadius = rs s / zoom s
        in if distanceFromCenter > blackHoleRadius then
             let newLaser = \<lparr>laser_id = nextId s, laser_x = Fin (relativeX e s),
                             laser_y = Fin (relativeY e s), laser_fired = True,
                             laser_angle = Some (if shiftKey e then 90 else 0),
                             laser_direction = Right\<rparr>
             in s\<lparr>lasers := lasers s @ [newLaser], nextId := nextId s + 1\<rparr>
           else s)"

definition handleLaserDoubleClick :: "int \<Rightarrow> component_state \<Rightarrow> component_state" where
  "handleLaserDoubleClick i s = s\<lparr>lasers := filter (\<lambda>laser. laser_id laser \<noteq> i) (lasers s)\<rparr>"

text \<open>
  The two loops \<^verbatim>\<open>while (displayAngle > 180) displayAngle -= 360\<close> and
  \<^verbatim>\<open>while (displayAngle <= -180) displayAngle += 360\<close>, on a finite angle.  On \<^verbatim>\<open>NaN\<close>
  both comparisons are false and neither loop is entered.
\<close>

function subtract_turns :: "real \<Rightarrow> real" where
  "subtract_turns displayAngle =
     (if displayAngle > 180 then subtract_turns (displayAngle - 360) else displayAngle)"
  by pat_completeness auto
termination
proof (relation "measure (\<lambda>a. nat \<lceil>a / 360\<rceil>)")
  fix displayAngle :: real
  assume "180 < displayAngle"
  then have "0 < \<lceil>displayAngle / 360\<rceil>"
    by (simp add: ceiling_less_iff flip: not_le)
  moreover have "\<lceil>(displayAngle - 360) / 360\<rceil> = \<lceil>displayAngle / 360\<rceil> - 1"
    by (simp add: diff_divide_distrib)
  ultimately show "(displayAngle - 360, displayAngle) \<in> measure (\<lambda>a. nat \<lceil>a / 360\<rceil>)"
    by simp
qed simp

function add_turns :: "real \<Rightarrow> real" where
  "add_turns displayAngle =
     (if displayAngle \<le> - 180 then add_turns (displayAngle + 360) else displayAngle)"
  by pat_completeness auto
termination
proof (relation "measure (\<lambda>a. nat \<lceil>- a / 360\<rceil>)")
  fix displayAngle :: real
  assume "displayAngle \<le> - 180"
  then have "0 < - displayAngle / 360"
    by simp
  then have "0 < \<lceil>- displayAngle / 360\<rceil>"
    by (simp only: ceiling_less_iff flip: not_le) simp
  moreover have "- (displayAngle + 360) / 360 = - displayAngle / 360 - 1"
    by (simp add: field_simps)
  then have "\<lceil>- (displayAngle + 360) / 360\<rceil> = \<lceil>- displayAngle / 360\<rceil> - 1"
    by (simp only: ceiling_diff_one)
  ultimately show "(displayAngle + 360, displayAngle) \<in> measure (\<lambda>a. nat \<lceil>- a / 360\<rceil>)"
    by (simp only: in_measure zless_nat_conj) simp
qed simp

declare subtract_turns.simps [simp del] add_turns.simps [simp del]

definition handleLaserMouseDown ::
  "js_lib \<Rightarrow> mouse_event \<Rightarrow> int \<Rightarrow> component_state \<Rightarrow> component_state" where
  "handleLaserMouseDown lib e i s =
     (if button e = 0 then
        s\<lparr>isDragging := True, draggedLaserId := Some i,
          dragOffset := (clientX e - rect_left e, clientY e - rect_top e)\<rparr>
      else if button e = 2 then
        (if shiftKey e then
           (case find (\<lambda>l. laser_id l = i) (lasers s) of
              Some laser \<Rightarrow>
                let rs = BH_SIZE s * 0.25;
                    xInRs = js_div (laser_x laser) rs;
                    yInRs = js_div (js_neg (laser_y laser)) rs;
                    displayAngle = (case laser_angle laser of
                                      Some angle \<Rightarrow> Fin (add_turns (subtract_turns (- angle)))
                                    | None \<Rightarrow> NaN)
                in s\<lparr>tempInputValues :=
                       \<lparr>input_x = toFixed lib xInRs 2, input_y = toFixed lib yInRs 2,
                        input_angle = toFixed lib displayAngle 1\<rparr>,
                     editingLaserId := Some i\<rparr>
            | None \<Rightarrow> s)
         else s\<lparr>rotatingLaserId := Some i, lastMouseX := Some (clientX e)\<rparr>)
      else s)"

text \<open>\<^verbatim>\<open>{...prev, [field]: value}\<close>.\<close>

fun set_input :: "field \<Rightarrow> string \<Rightarrow> input_values \<Rightarrow> input_values" where
  "set_input Field_x v t = t\<lparr>input_x := v\<rparr>"
| "set_input Field_y v t = t\<lparr>input_y := v\<rparr>"
| "set_input Field_angle v t = t\<lparr>input_angle := v\<rparr>"

text \<open>The object that replaces the edited laser, for a parsed value \<open>numValue\<close>.\<close>

fun edited_laser :: "field \<Rightarrow> num \<Rightarrow> real \<Rightarrow> laser \<Rightarrow> laser" where
  "edited_laser Field_x numValue r_s laser = laser\<lparr>laser_x := js_mul numValue r_s\<rparr>"
| "edited_laser Field_y numValue r_s laser = laser\<lparr>laser_y := js_mul (js_neg numValue) r_s\<rparr>"
| "edited_laser Field_angle numValue r_s laser =
     laser\<lparr>laser_angle := mod_angle (add_angle (mod_num (js_neg numValue) 360) 360) 360\<rparr>"

definition handleLaserEdit ::
  "js_lib \<Rightarrow> field \<Rightarrow> string \<Rightarrow> component_state \<Rightarrow> component_state" where
  "handleLaserEdit lib fld v s =
     (case editingLaserId s of
        None \<Rightarrow> s
      | Some editing \<Rightarrow>
          let s1 = s\<lparr>tempInputValues := set_input fld v (tempInputValues s)\<rparr>;
              numValue = parseFloat lib v
          in if numValue \<noteq> NaN then
               (let rs = BH_SIZE s * 0.25
                in s1\<lparr>lasers := map (\<lambda>laser. if laser_id laser = editing
                                               then edited_laser fld numValue rs laser
                                               else laser) (lasers s1)\<rparr>)
             else s1)"

definition handleCloseLaserEdit :: "component_state \<Rightarrow> component_state" where
  "handleCloseLaserEdit s = s\<lparr>editingLaserId := None\<rparr>"

definition handleMouseMove :: "mouse_event \<Rightarrow> component_state \<Rightarrow> component_state" where
  "handleMouseMove e s =
     (if rotatingLaserId s \<noteq> None \<and> lastMouseX s \<noteq> None then
        let deltaX = clientX e - the (lastMouseX s)
        in s\<lparr>lasers := map (\<lambda>laser. if Some (laser_id laser) = rotatingLaserId s
                                      then laser\<lparr>laser_angle :=
                                             normalizeAngle
                                               (add_angle (laser_angle laser) (deltaX * 0.5))\<rparr>
                                      else laser) (lasers s),
             lastMouseX := Some (clientX e)\<rparr>
      else if isDragging s \<and> draggedLaserId s \<noteq> None then
        s\<lparr>lasers := map (\<lambda>laser. if Some (laser_id laser) = draggedLaserId s
                                   then laser\<lparr>laser_x := Fin (relativeX e s),
                                               laser_y := Fin (relativeY e s)\<rparr>
                                   else laser) (lasers s)\<rparr>
      else if isPanning s then
        let deltaX = clientX e - fst (panStart s);
            deltaY = clientY e - snd (panStart s)
        in s\<lparr>panOffset := (deltaX, deltaY)\<rparr>
      else s)"

definition handleMouseDown :: "mouse_event \<Rightarrow> component_state \<Rightarrow> component_state" where
  "handleMouseDown e s =
     (if button e = 1 \<or> (button e = 0 \<and> altKey e) then
        s\<lparr>isPanning := True,
          panStart := (clientX e - fst (panOffset s), clientY e - snd (panOffset s))\<rparr>
      else s)"

definition handleMouseUp :: "mouse_event \<Rightarrow> component_state \<Rightarrow> component_state" where
  "handleMouseUp e s =
     (if button e = 0 then
        (let s1 = s\<lparr>isDragging := False, draggedLaserId := None\<rparr>
         in if isPanning s then s1\<lparr>isPanning := False, wasPanning := True\<rparr> else s1)
      else if button e = 2 then s\<lparr>rotatingLaserId := None, lastMouseX := None\<rparr>
      else if button e = 1 then
        (if isPanning s then s\<lparr>isPanning := False, wasPanning := True\<rparr> else s)
      else s)"

definition handleCleanAll :: "component_state \<Rightarrow> component_state" where
  "handleCleanAll s = s\<lparr>lasers := []\<rparr>"

text \<open>
  Everything that can happen to the component: the handlers above, the inline handlers
  of the side bar (gravity and grid switches, the two zoom buttons) and a window resize.
\<close>

datatype event =
    Wheel real
  | CanvasClick mouse_event
  | LaserDoubleClick int
  | LaserMouseDown mouse_event int
  | LaserEdit field string
  | CloseLaserEdit
  | MouseMove mouse_event
  | MouseDown mouse_event
  | MouseUp mouse_event
  | CleanAll
  | ToggleGravitation
  | ToggleGrid
  | ZoomOut
  | ZoomIn
  | Resize real real

fun dispatch :: "js_lib \<Rightarrow> event \<Rightarrow> component_state \<Rightarrow> component_state" where
  "dispatch lib (Wheel deltaY) s = handleWheel deltaY s"
| "dispatch lib (CanvasClick e) s = handleCanvasClick e s"
| "dispatch lib (LaserDoubleClick i) s = handleLaserDoubleClick i s"
| "dispatch lib (LaserMouseDown e i) s = handleLaserMouseDown lib e i s"
| "dispatch lib (LaserEdit fld v) s = handleLaserEdit lib fld v s"
| "dispatch lib CloseLaserEdit s = handleCloseLaserEdit s"
| "dispatch lib (MouseMove e) s = handleMouseMove e s"
| "dispatch lib (MouseDown e) s = handleMouseDown e s"
| "dispatch lib (MouseUp e) s = handleMouseUp e s"
| "dispatch lib CleanAll s = handleCleanAll s"
| "dispatch lib ToggleGravitation s = s\<lparr>gravityEnabled := \<not> gravityEnabled s\<rparr>"
| "dispatch lib ToggleGrid s = s\<lparr>showGrid := \<not> showGrid s\<rparr>"
| "dispatch lib ZoomOut s = s\<lparr>zoom := max minZoom (zoom s - 0.2)\<rparr>"
| "dispatch lib ZoomIn s = s\<lparr>zoom := min maxZoom (zoom s + 0.2)\<rparr>"
| "dispatch lib (Resize w h) s = s\<lparr>size_width := w, size_height := h\<rparr>"

text \<open>The state after a sequence of events, and the ids seen in the scene on the way.\<close>

fun run :: "js_lib \<Rightarrow> component_state \<Rightarrow> event list \<Rightarrow> component_state" where
  "run lib s [] = s"
| "run lib s (e # es) = run lib (dispatch lib e s) es"

fun assigned_ids :: "js_lib \<Rightarrow> component_state \<Rightarrow> event list \<Rightarrow> int list" where
  "assigned_ids lib s [] = map laser_id (lasers s)"
| "assigned_ids lib s (e # es) = map laser_id (lasers s) @ assigned_ids lib (dispatch lib e s) es"

section \<open>Vocabulary of the specification\<close>






definition ids_fresh :: "component_state \<Rightarrow> bool" where
  "ids_fresh s \<longleftrightarrow>
     distinct (map laser_id (lasers s)) \<and> (\<forall>l \<in> set (lasers s). laser_id l < nextId s)"

section \<open>A library for the sample scenes\<close>

text \<open>
  \<^verbatim>\<open>parseFloat\<close> on a string of ASCII characters, after the language definition: white
  space at the front is skipped, and the longest prefix of the rest that is a decimal
  literal (an optional sign, then \<^verbatim>\<open>Infinity\<close> or digits with an optional fraction and an
  optional exponent) gives the value; there is no such prefix when neither an integer
  digit nor a fraction digit is found, and the result is \<^verbatim>\<open>NaN\<close>.  The value is not
  rounded to a double, except that a magnitude which rounds to infinity gives infinity.
\<close>

definition is_space :: "char \<Rightarrow> bool" where
  "is_space c \<longleftrightarrow> c \<in> set [CHR 0x09, CHR 0x0A, CHR 0x0B, CHR 0x0C, CHR 0x0D, CHR 0x20]"

definition is_digit :: "char \<Rightarrow> bool" where
  "is_digit c \<longleftrightarrow> c \<in> set ''0123456789''"

text \<open>The value of a digit is its place in the string of the ten digits.\<close>

definition digit_value :: "char \<Rightarrow> nat" where
  "digit_value c = length (takeWhile (\<lambda>d. d \<noteq> c) ''0123456789'')"

definition digits_value :: "string \<Rightarrow> nat" where
  "digits_value ds = foldl (\<lambda>n c. 10 * n + digit_value c) 0 ds"

text \<open>
  The exponent part at the front of a string: \<^verbatim>\<open>e\<close> or \<^verbatim>\<open>E\<close>, an optional sign and at
  least one digit.  Without a digit there is no exponent part, and the exponent is \<open>0\<close>.
\<close>

definition exponent_part :: "string \<Rightarrow> int" where
  "exponent_part cs =
     (case cs of
        [] \<Rightarrow> 0
      | c # ds \<Rightarrow>
          if c = CHR ''e'' \<or> c = CHR ''E'' then
            (case ds of
               [] \<Rightarrow> 0
             | d # es \<Rightarrow>
                 if d = CHR ''-'' then - int (digits_value (takeWhile is_digit es))
                 else if d = CHR ''+'' then int (digits_value (takeWhile is_digit es))
                 else int (digits_value (takeWhile is_digit ds)))
          else 0)"

text \<open>From this magnitude on a decimal value rounds to infinity.\<close>

definition rounds_to_infinity :: real where
  "rounds_to_infinity = 2 ^ 1024 - 2 ^ 970"

definition decimal_value :: "string \<Rightarrow> num" where
  "decimal_value cs =
     (if take 8 cs = ''Infinity'' then PInf
      else
        let intDigits = takeWhile is_digit cs;
            rest = dropWhile is_digit cs;
            fracDigits = (case rest of
                            [] \<Rightarrow> []
                          | c # ds \<Rightarrow> if c = CHR ''.'' then takeWhile is_digit ds else []);
            afterFrac = (case rest of
                           [] \<Rightarrow> []
                         | c # ds \<Rightarrow> if c = CHR ''.'' then dropWhile is_digit ds else rest)
        in if intDigits = [] \<and> fracDigits = [] then NaN
           else
             let e = exponent_part afterFrac;
                 m = real (digits_value (intDigits @ fracDigits)) / 10 ^ length fracDigits;
                 v = (if 0 \<le> e then m * 10 ^ nat e else m / 10 ^ nat (- e))
             in if rounds_to_infinity \<le> v then PInf else Fin v)"

definition parseFloat_ascii :: "string \<Rightarrow> num" where
  "parseFloat_ascii inputString =
     (case dropWhile is_space inputString of
        [] \<Rightarrow> NaN
      | c # cs \<Rightarrow>
          if c = CHR ''-'' then js_neg (decimal_value cs)
          else if c = CHR ''+'' then decimal_value cs
          else decimal_value (c # cs))"

text \<open>
  \<^verbatim>\<open>toFixed\<close>, after the language definition: the sign, then the integer nearest to
  \<open>x * 10\<^sup>f\<close> (the larger one of two) in decimal digits, filled with zeros to \<open>f + 1\<close>
  digits, with a point before the last \<open>f\<close> of them.  (From \<open>10\<^sup>2\<^sup>1\<close> on JavaScript prints
  an exponent instead; such coordinates do not occur in the scenes below.)
\<close>

function decimal_digits :: "nat \<Rightarrow> string" where
  "decimal_digits n =
     (if n < 10 then [''0123456789'' ! n]
      else decimal_digits (n div 10) @ [''0123456789'' ! (n mod 10)])"
  by pat_completeness auto
termination
  by (relation "measure (\<lambda>n. n)") auto

declare decimal_digits.simps [simp del]

definition toFixed_digits :: "num \<Rightarrow> nat \<Rightarrow> string" where
  "toFixed_digits x f =
     (case x of
        NaN \<Rightarrow> ''NaN''
      | PInf \<Rightarrow> ''Infinity''
      | NInf \<Rightarrow> ''-Infinity''
      | Fin v \<Rightarrow>
          let s = (if v < 0 then ''-'' else []);
              n = nat \<lfloor>\<bar>v\<bar> * 10 ^ f + 1 / 2\<rfloor>;
              m = decimal_digits n;
              m = (if length m \<le> f then replicate (f + 1 - length m) (CHR ''0'') @ m else m)
          in if f = 0 then s @ m
             else s @ take (length m - f) m @ ''.'' @ drop (length m - f) m)"

section \<open>Sample scenes\<close>

text \<open>
  Concrete inputs on which the theorems below are evaluated: the library above, a
  pointer event on a canvas whose corner is the origin, a scene with two lasers, and a
  short session.
\<close>

definition sample_lib :: js_lib where
  "sample_lib = \<lparr>parseFloat = parseFloat_ascii, toFixed = toFixed_digits\<rparr>"

definition pointer :: "real \<Rightarrow> real \<Rightarrow> int \<Rightarrow> bool \<Rightarrow> mouse_event" where
  "pointer px py b shift =
     \<lparr>clientX = px, clientY = py, button = b, shiftKey = shift, altKey = False,
      rect_left = 0, rect_top = 0\<rparr>"

definition two_lasers :: component_state where
  "two_lasers = initial_state
     \<lparr>lasers := [\<lparr>laser_id = 0, laser_x = Fin 380, laser_y = Fin 0, laser_fired = True,
                   laser_angle = Some 90, laser_direction = Right\<rparr>,
                  \<lparr>laser_id = 1, laser_x = Fin 0, laser_y = Fin 200, laser_fired = True,
                   laser_angle = Some 0, laser_direction = Right\<rparr>],
      nextId := 2\<rparr>"

definition sample_events :: "event list" where
  "sample_events =
     [CanvasClick (pointer 700 400 0 True),
      LaserMouseDown (pointer 700 400 2 False) 0,
      MouseMove (pointer 500 400 2 False),
      MouseUp (pointer 500 400 2 False),
      CleanAll]"


section \<open>Properties of the solver\<close>

subsection \<open>The Math library\<close>

lemma hypot_0_right: "hypot a 0 = \<bar>a\<bar>"
  by (simp add: hypot_def)

lemma hypot_polar: "hypot (r * cos t) (r * sin t) = \<bar>r\<bar>"
proof -
  have "(r * cos t) * (r * cos t) + (r * sin t) * (r * sin t) = r\<^sup>2 * ((cos t)\<^sup>2 + (sin t)\<^sup>2)"
    unfolding power2_eq_square by (simp only: algebra_simps)
  also have "\<dots> = r\<^sup>2" by simp
  finally show ?thesis by (simp add: hypot_def)
qed


lemma atan2_0_pos: "0 < a \<Longrightarrow> atan2 0 a = 0"
  by (simp add: atan2_def)





subsection \<open>The loop, one iteration at a time\<close>

lemma integrate_horizon:
  "step < maxSteps \<Longrightarrow> crossesHorizon E yState \<Longrightarrow> integrate E step yState points = points"
  by (subst integrate.simps) simp

lemma integrate_push:
  "step < maxSteps \<Longrightarrow> \<not> crossesHorizon E yState \<Longrightarrow> \<not> leavesCanvas E yState \<Longrightarrow>
   integrate E step yState points =
     integrate E (step + 1) (rk4 yState (env_h E) (derivs (env_effectiveRs E) (env_L E)))
       (points @ [\<lparr>point_x = xPix E yState, point_y = yPix E yState, distToCenter = env_zoom E\<rparr>])"
  by (subst integrate.simps) simp

lemma integrate_stops:
  "\<not> (step < maxSteps \<and> \<not> crossesHorizon E yState \<and> \<not> leavesCanvas E yState) \<Longrightarrow>
   integrate E step yState points = points"
  by (subst integrate.simps) auto

text \<open>The loop only appends: what has been pushed stays, in its place.\<close>

lemma integrate_prefix: "\<exists>ys. integrate E step yState points = points @ ys"
proof (induction E step yState points rule: integrate.induct)
  case (1 E step yState points)
  let ?p = "\<lparr>point_x = xPix E yState, point_y = yPix E yState, distToCenter = env_zoom E\<rparr>"
  show ?case
  proof (cases "step < maxSteps \<and> \<not> crossesHorizon E yState \<and> \<not> leavesCanvas E yState")
    case True
    with "1.IH" obtain ys where
      "integrate E (step + 1) (rk4 yState (env_h E) (derivs (env_effectiveRs E) (env_L E)))
         (points @ [?p]) = (points @ [?p]) @ ys"
      by blast
    with True show ?thesis by (simp add: integrate_push)
  next
    case False
    then show ?thesis by (simp add: integrate_stops)
  qed
qed

lemma integrate_length:
  "length (integrate E step yState points) \<le> length points + (maxSteps - step)"
proof (induction E step yState points rule: integrate.induct)
  case (1 E step yState points)
  let ?p = "\<lparr>point_x = xPix E yState, point_y = yPix E yState, distToCenter = env_zoom E\<rparr>"
  show ?case
  proof (cases "step < maxSteps \<and> \<not> crossesHorizon E yState \<and> \<not> leavesCanvas E yState")
    case True
    then have "length (integrate E step yState points)
        = length (integrate E (step + 1)
            (rk4 yState (env_h E) (derivs (env_effectiveRs E) (env_L E))) (points @ [?p]))"
      by (simp add: integrate_push)
    also have "\<dots> \<le> length points + 1 + (maxSteps - (step + 1))"
      using "1.IH" True by simp
    also have "\<dots> = length points + (maxSteps - step)"
      using True by arith
    finally show ?thesis .
  next
    case False
    then show ?thesis by (simp add: integrate_stops)
  qed
qed

lemma integrate_full_budget:
  assumes inv: "\<And>y. I y \<Longrightarrow> \<not> crossesHorizon E y \<and> \<not> leavesCanvas E y \<and>
           I (rk4 y (env_h E) (derivs (env_effectiveRs E) (env_L E)))"
  shows "I yState \<Longrightarrow> length (integrate E step yState points) = length points + (maxSteps - step)"
proof (induction "maxSteps - step" arbitrary: step yState points)
  case 0
  then show ?case by (simp add: integrate_stops)
next
  case (Suc n)
  let ?p = "\<lparr>point_x = xPix E yState, point_y = yPix E yState, distToCenter = env_zoom E\<rparr>"
  let ?y = "rk4 yState (env_h E) (derivs (env_effectiveRs E) (env_L E))"
  from Suc.hyps(2) have lt: "step < maxSteps" and n: "n = maxSteps - (step + 1)"
    by simp_all
  from inv [OF Suc.prems] have c: "\<not> crossesHorizon E yState" and l: "\<not> leavesCanvas E yState"
    and i: "I ?y"
    by blast+
  have "length (integrate E step yState points) = length (integrate E (step + 1) ?y (points @ [?p]))"
    using lt c l by (simp add: integrate_push)
  also have "\<dots> = length (points @ [?p]) + (maxSteps - (step + 1))"
    using n i by (rule Suc.hyps(1))
  also have "\<dots> = length points + (maxSteps - step)"
    using lt by simp
  finally show ?case .
qed

lemma first_point:
  "\<not> crossesHorizon E y \<Longrightarrow> \<not> leavesCanvas E y \<Longrightarrow>
   \<exists>ys. integrate E 0 y [] = \<lparr>point_x = xPix E y, point_y = yPix E y, distToCenter = env_zoom E\<rparr> # ys"
  using integrate_prefix [of E "0 + 1" "rk4 y (env_h E) (derivs (env_effectiveRs E) (env_L E))"
      "[] @ [\<lparr>point_x = xPix E y, point_y = yPix E y, distToCenter = env_zoom E\<rparr>]"]
  by (simp add: integrate_push maxSteps_def)



text \<open>A state whose radius is small enough passes the canvas test, whatever its angle.\<close>

lemma stays_on_canvas:
  assumes "\<bar>r\<bar> \<le> env_maxDistance E"
    and "- (1 / env_zoom E) * env_width E \<le> env_centerX E - \<bar>r\<bar>"
    and "env_centerX E + \<bar>r\<bar> \<le> env_width E * (1 / env_zoom E)"
    and "- (1 / env_zoom E) * env_height E \<le> env_centerY E - \<bar>r\<bar>"
    and "env_centerY E + \<bar>r\<bar> \<le> env_height E * (1 / env_zoom E)"
  shows "\<not> leavesCanvas E (r, phi, pr)"
proof -
  have "\<bar>r * cos phi\<bar> \<le> \<bar>r\<bar> * 1" and "\<bar>r * sin phi\<bar> \<le> \<bar>r\<bar> * 1"
    unfolding abs_mult by (intro mult_left_mono; simp)+
  then have c: "\<bar>r * cos phi\<bar> \<le> \<bar>r\<bar>" and s: "\<bar>r * sin phi\<bar> \<le> \<bar>r\<bar>"
    by simp_all
  have x: "xPix E (r, phi, pr) = r * cos phi + env_centerX E"
    and y: "yPix E (r, phi, pr) = r * sin phi + env_centerY E"
    by (simp_all add: xPix_def yPix_def)
  have d: "hypot (xPix E (r, phi, pr) - env_centerX E) (yPix E (r, phi, pr) - env_centerY E) = \<bar>r\<bar>"
    unfolding x y by (simp add: hypot_polar)
  show ?thesis
    unfolding leavesCanvas_def Let_def d unfolding x y
    using assms c s by linarith
qed

subsection \<open>The annotation of the points\<close>

text \<open>Whatever the input, every point of the result carries the zoom factor.\<close>

lemma integrate_zoom:
  "\<forall>p \<in> set points. distToCenter p = env_zoom E \<Longrightarrow>
   \<forall>p \<in> set (integrate E step yState points). distToCenter p = env_zoom E"
proof (induction E step yState points rule: integrate.induct)
  case (1 E step yState points)
  show ?case
  proof (cases "step < maxSteps \<and> \<not> crossesHorizon E yState \<and> \<not> leavesCanvas E yState")
    case True
    then show ?thesis using "1.IH" "1.prems" by (simp add: integrate_push)
  next
    case False
    then show ?thesis using "1.prems" by (simp add: integrate_stops)
  qed
qed

lemma calculateLightPath_zoom:
  "\<forall>p \<in> set (calculateLightPath startX startY angleDeg width height bhSize z g).
     distToCenter p = z"
  using integrate_zoom [of "[]" "solver_env startX startY angleDeg width height bhSize z g" 0
      "initial_yState startX startY angleDeg width height"]
  by (simp add: calculateLightPath_def solver_env_def)

text \<open>
  C1 (the code differs): every element of the returned array should carry in \<open>distToCenter\<close>
  its distance from the body center divided by \<open>bhSize * 0.25\<close>.  The loop computes that
  distance (\<^verbatim>\<open>distFromCenter\<close>) and then stores \<^verbatim>\<open>zoom\<close> in the field.  For a laser
  \<open>300\<close> pixels to the right of the center of an \<open>800 \<times> 800\<close> window, at zoom \<open>1/2\<close>, the
  first point is the start point, two radii from the center, and its annotation is \<open>1/2\<close>.
\<close>

theorem distToCenter_holds_zoom:
  "calculateLightPath 700 400 0 800 800 600 (1/2) False \<noteq> [] \<and>
   hd (calculateLightPath 700 400 0 800 800 600 (1/2) False)
     = \<lparr>point_x = 700, point_y = 400, distToCenter = 1/2\<rparr> \<and>
   hypot (700 - 800 / 2) (400 - 800 / 2) / (600 * 0.25) = 2"
proof -
  let ?E = "solver_env 700 400 0 800 800 600 (1/2) False"
  have y0: "initial_yState 700 400 0 800 800 = (300, 0, 1)"
    by (simp add: initial_yState_def Let_def hypot_0_right atan2_0_pos)
  have c: "\<not> crossesHorizon ?E (300, 0, 1)"
    by (simp add: crossesHorizon_def solver_env_def effectiveRs_of_def)
  have l: "\<not> leavesCanvas ?E (300, 0, 1)"
    by (rule stays_on_canvas) (simp_all add: solver_env_def)
  have x: "xPix ?E (300, 0, 1) = 700" and y: "yPix ?E (300, 0, 1) = 400"
    and z: "env_zoom ?E = 1/2"
    by (simp_all add: xPix_def yPix_def solver_env_def)
  from first_point [OF c l] obtain ys where
    "calculateLightPath 700 400 0 800 800 600 (1/2) False
       = \<lparr>point_x = 700, point_y = 400, distToCenter = 1/2\<rparr> # ys"
    unfolding calculateLightPath_def y0 x y z by blast
  then show ?thesis by (simp add: hypot_0_right)
qed

subsection \<open>Gravity switched off\<close>













subsection \<open>The horizon test\<close>

lemma radial_step:
  "rk4 (r, phi, - 1) (3/2) (derivs 0 0) = (r - 3/2, phi, - 1)"
  by (simp add: rk4_def derivs_def Let_def)

lemma two_points_then_horizon:
  assumes "\<not> crossesHorizon E y" "\<not> leavesCanvas E y"
    and "y' = rk4 y (env_h E) (derivs (env_effectiveRs E) (env_L E))"
    and "\<not> crossesHorizon E y'" "\<not> leavesCanvas E y'"
    and "crossesHorizon E (rk4 y' (env_h E) (derivs (env_effectiveRs E) (env_L E)))"
  shows "integrate E 0 y [] =
     [\<lparr>point_x = xPix E y, point_y = yPix E y, distToCenter = env_zoom E\<rparr>,
      \<lparr>point_x = xPix E y', point_y = yPix E y', distToCenter = env_zoom E\<rparr>]"
  using assms by (simp add: integrate_push integrate_horizon maxSteps_def)

text \<open>
  C3 (as stated, refuted): the horizon test should only be able to end the loop when
  gravity is on.  With gravity off the test is \<open>r \<le> 0\<close>.  It holds at the first
  iteration for a laser placed at the body center, and the path is empty.  It also ends
  the path of a laser two pixels to the right of the center that points at it
  (\<open>180\<close> degrees): \<open>r\<close> goes \<open>2, 1/2, - 1\<close>, two points are pushed, and the third
  iteration stops at the horizon test.
\<close>

theorem horizon_test_fires_without_gravity:
  "crossesHorizon (solver_env 400 400 0 800 800 600 1 False) (initial_yState 400 400 0 800 800) \<and>
   calculateLightPath 400 400 0 800 800 600 1 False = [] \<and>
   crossesHorizon (solver_env 402 400 180 800 800 600 1 False)
     (rk4 (rk4 (initial_yState 402 400 180 800 800) (3/2) (derivs 0 0)) (3/2) (derivs 0 0)) \<and>
   calculateLightPath 402 400 180 800 800 600 1 False
     = [\<lparr>point_x = 402, point_y = 400, distToCenter = 1\<rparr>,
        \<lparr>point_x = 801/2, point_y = 400, distToCenter = 1\<rparr>]"
proof -
  have c: "crossesHorizon (solver_env 400 400 0 800 800 600 1 False) (initial_yState 400 400 0 800 800)"
    by (simp add: crossesHorizon_def solver_env_def effectiveRs_of_def initial_yState_def Let_def
        hypot_0_right)
  then have p: "calculateLightPath 400 400 0 800 800 600 1 False = []"
    by (simp add: calculateLightPath_def integrate_horizon maxSteps_def)
  let ?E = "solver_env 402 400 180 800 800 600 1 False"
  have y0: "initial_yState 402 400 180 800 800 = (2, 0, - 1)"
    by (simp add: initial_yState_def Let_def hypot_0_right atan2_0_pos)
  have L: "env_L ?E = 0" and h: "env_h ?E = 3/2" and e: "env_effectiveRs ?E = 0"
    and z: "env_zoom ?E = 1"
    by (simp_all add: solver_env_def angular_momentum_def Let_def hypot_0_right atan2_0_pos
        effectiveRs_of_def)
  have c0: "\<not> crossesHorizon ?E (2, 0, - 1)" and c1: "\<not> crossesHorizon ?E (1/2, 0, - 1)"
    and c2: "crossesHorizon ?E (- 1, 0, - 1)"
    by (simp_all add: crossesHorizon_def e)
  have l0: "\<not> leavesCanvas ?E (2, 0, - 1)" and l1: "\<not> leavesCanvas ?E (1/2, 0, - 1)"
    by (rule stays_on_canvas, simp_all add: solver_env_def)+
  have s1: "rk4 (2, 0, - 1) (3/2) (derivs 0 0) = (1/2, 0, - 1)"
    and s2: "rk4 (1/2, 0, - 1) (3/2) (derivs 0 0) = (- 1, 0, - 1)"
    by (simp_all add: radial_step)
  have x: "xPix ?E (2, 0, - 1) = 402" "yPix ?E (2, 0, - 1) = 400"
    "xPix ?E (1/2, 0, - 1) = 801/2" "yPix ?E (1/2, 0, - 1) = 400"
    by (simp_all add: xPix_def yPix_def solver_env_def)
  have q: "calculateLightPath 402 400 180 800 800 600 1 False
     = [\<lparr>point_x = 402, point_y = 400, distToCenter = 1\<rparr>,
        \<lparr>point_x = 801/2, point_y = 400, distToCenter = 1\<rparr>]"
    using two_points_then_horizon [of ?E "(2, 0, - 1)" "(1/2, 0, - 1)"] c0 c1 c2 l0 l1
    by (simp add: calculateLightPath_def y0 L h e z s1 s2 x)
  from c p q c2 show ?thesis by (simp add: y0 s1 s2)
qed

text \<open>
  C3 (amended): at every iteration the horizon test \<open>r \<le> effectiveRs * 1.001\<close> comes before
  the push; when it holds the loop returns the points pushed so far, without the
  current one.  The threshold is \<open>bhSize * 0.25 * 1.001\<close> with gravity on and \<open>0\<close> with
  gravity off.
\<close>

theorem horizon_test_ends_sequence:
  "(step < maxSteps \<and> crossesHorizon E yState \<longrightarrow> integrate E step yState points = points) \<and>
   (crossesHorizon (solver_env startX startY angleDeg width height bhSize z g) (r, phi, pr)
      \<longleftrightarrow> r \<le> (if g then bhSize * 0.25 else 0) * 1.001)"
  by (auto simp add: integrate_horizon crossesHorizon_def solver_env_def effectiveRs_of_def)

theorem horizon_test_ends_sequence_witness:
  "0 < maxSteps \<and>
   crossesHorizon (solver_env 500 400 180 800 800 600 1 True) (100, 0, - 1) \<and>
   integrate (solver_env 500 400 180 800 800 600 1 True) 0 (100, 0, - 1)
     [\<lparr>point_x = 1, point_y = 2, distToCenter = 3\<rparr>] = [\<lparr>point_x = 1, point_y = 2, distToCenter = 3\<rparr>]"
proof -
  have m: "0 < maxSteps" by (simp add: maxSteps_def)
  have c: "crossesHorizon (solver_env 500 400 180 800 800 600 1 True) (100, 0, - 1)"
    by (simp add: crossesHorizon_def solver_env_def effectiveRs_of_def)
  show ?thesis
    using m c horizon_test_ends_sequence
      [of 0 "solver_env 500 400 180 800 800 600 1 True" "(100, 0, - 1)"
          "[\<lparr>point_x = 1, point_y = 2, distToCenter = 3\<rparr>]"]
    by simp
qed

subsection \<open>The step budget\<close>

text \<open>On the circular photon orbit \<open>r = 1.5 r\<^sub>s\<close> a Runge-Kutta step only turns the angle.\<close>

lemma circular_orbit_step:
  "rk4 (225, phi, 0) (3/2) (derivs 150 225) = (225, phi + 1/150, 0)"
  by (simp add: rk4_def derivs_def Let_def eval_nat_numeral)

text \<open>
  C4: for every input, the start point at the body center included, the solver returns
  a list of at most 4000 points; \<open>calculateLightPath\<close> is a total function, the loop
  being defined by recursion on the steps left.  The budget is what ends the loop when
  neither test fires: if the states of the run stay inside a set \<open>I\<close> that neither the
  horizon test nor the canvas test meets, the list has exactly 4000 points.
\<close>

theorem step_budget_caps_the_path:
  "length (calculateLightPath startX startY angleDeg width height bhSize z g) \<le> 4000 \<and>
   (I (initial_yState startX startY angleDeg width height) \<and>
    (\<forall>y. I y \<longrightarrow>
       \<not> crossesHorizon (solver_env startX startY angleDeg width height bhSize z g) y \<and>
       \<not> leavesCanvas (solver_env startX startY angleDeg width height bhSize z g) y \<and>
       I (rk4 y ((bhSize * 0.25) * 0.01)
            (derivs (effectiveRs_of bhSize g)
               (angular_momentum startX startY angleDeg width height)))) \<longrightarrow>
    length (calculateLightPath startX startY angleDeg width height bhSize z g) = 4000)"
proof -
  let ?E = "solver_env startX startY angleDeg width height bhSize z g"
  let ?y = "initial_yState startX startY angleDeg width height"
  have e: "env_h ?E = (bhSize * 0.25) * 0.01" "env_effectiveRs ?E = effectiveRs_of bhSize g"
    "env_L ?E = angular_momentum startX startY angleDeg width height"
    by (simp_all add: solver_env_def)
  have 1: "length (calculateLightPath startX startY angleDeg width height bhSize z g) \<le> 4000"
    using integrate_length [of ?E 0 ?y "[]"]
    by (simp add: calculateLightPath_def maxSteps_def)
  have 2: "length (calculateLightPath startX startY angleDeg width height bhSize z g) = 4000"
    if i: "I ?y" and s: "\<forall>y. I y \<longrightarrow>
       \<not> crossesHorizon ?E y \<and> \<not> leavesCanvas ?E y \<and>
       I (rk4 y ((bhSize * 0.25) * 0.01)
            (derivs (effectiveRs_of bhSize g)
               (angular_momentum startX startY angleDeg width height)))"
  proof -
    have "length (integrate ?E 0 ?y []) = length ([] :: point list) + (maxSteps - 0)"
    proof (rule integrate_full_budget [where I = I])
      fix y
      assume "I y"
      with s show "\<not> crossesHorizon ?E y \<and> \<not> leavesCanvas ?E y \<and>
          I (rk4 y (env_h ?E) (derivs (env_effectiveRs ?E) (env_L ?E)))"
        unfolding e by blast
    qed (rule i)
    then show ?thesis
      by (simp add: calculateLightPath_def maxSteps_def)
  qed
  from 1 2 show ?thesis by blast
qed

theorem step_budget_caps_the_path_witness:
  "length (calculateLightPath 625 400 90 800 800 600 1 True) = 4000"
proof -
  let ?E = "solver_env 625 400 90 800 800 600 1 True"
  let ?I = "\<lambda>y :: vec3. fst y = 225 \<and> snd (snd y) = 0"
  have y0: "initial_yState 625 400 90 800 800 = (225, 0, 0)"
    by (simp add: initial_yState_def Let_def hypot_0_right atan2_0_pos)
  have L: "angular_momentum 625 400 90 800 800 = 225"
    by (simp add: angular_momentum_def Let_def hypot_0_right atan2_0_pos)
  have e: "effectiveRs_of 600 True = 150" "(600 * 0.25) * 0.01 = (3/2 :: real)"
    by (simp_all add: effectiveRs_of_def)
  have i: "?I (initial_yState 625 400 90 800 800)"
    by (simp add: y0)
  have s: "\<forall>y. ?I y \<longrightarrow> \<not> crossesHorizon ?E y \<and> \<not> leavesCanvas ?E y \<and>
       ?I (rk4 y ((600 * 0.25) * 0.01) (derivs (effectiveRs_of 600 True)
            (angular_momentum 625 400 90 800 800)))"
  proof (intro allI impI)
    fix y :: vec3
    assume "?I y"
    then obtain phi where y: "y = (225, phi, 0)"
      by (cases y) auto
    have "\<not> crossesHorizon ?E y"
      by (simp add: y crossesHorizon_def solver_env_def effectiveRs_of_def)
    moreover have "\<not> leavesCanvas ?E y"
      unfolding y by (rule stays_on_canvas) (simp_all add: solver_env_def)
    moreover have "?I (rk4 y ((600 * 0.25) * 0.01) (derivs (effectiveRs_of 600 True)
            (angular_momentum 625 400 90 800 800)))"
      unfolding L e y circular_orbit_step by simp
    ultimately show "\<not> crossesHorizon ?E y \<and> \<not> leavesCanvas ?E y \<and>
       ?I (rk4 y ((600 * 0.25) * 0.01) (derivs (effectiveRs_of 600 True)
            (angular_momentum 625 400 90 800 800)))"
      by blast
  qed
  from step_budget_caps_the_path [of 625 400 90 800 800 600 1 True ?I] i s
  show ?thesis by blast
qed

section \<open>Properties of the handlers\<close>

subsection \<open>The remainder and the normalised angle\<close>

lemma js_rem_nonneg:
  assumes "0 \<le> a" and "0 < b"
  shows "0 \<le> js_rem a b \<and> js_rem a b < b"
proof -
  have q: "0 \<le> a / b" using assms by simp
  have "of_int \<lfloor>a / b\<rfloor> * b \<le> a" and "a < (of_int \<lfloor>a / b\<rfloor> + 1) * b"
    using assms(2) by (rule floor_divide_lower, rule floor_divide_upper)
  then show ?thesis
    using q by (simp add: js_rem_def algebra_simps)
qed

lemma js_rem_neg:
  assumes "a < 0" and "0 < b"
  shows "- b < js_rem a b \<and> js_rem a b \<le> 0"
proof -
  have q: "\<not> 0 \<le> a / b" using assms by (simp add: divide_less_0_iff not_le)
  have "a \<le> of_int \<lceil>a / b\<rceil> * b" and "(of_int \<lceil>a / b\<rceil> - 1) * b < a"
    using assms(2) by (rule ceiling_divide_upper, rule ceiling_divide_lower)
  then show ?thesis
    using q by (simp add: js_rem_def algebra_simps)
qed

lemma js_rem_360_360:
  "0 \<le> js_rem (js_rem a 360 + 360) 360 \<and> js_rem (js_rem a 360 + 360) 360 < 360"
proof -
  have "- 360 < js_rem a 360"
    using js_rem_nonneg [of a 360] js_rem_neg [of a 360] by (cases "0 \<le> a") auto
  then have "0 \<le> js_rem a 360 + 360" by simp
  then show ?thesis by (intro js_rem_nonneg) simp_all
qed

lemma js_rem_shift: "\<exists>k::int. js_rem a b = a - b * of_int k"
  by (auto simp add: js_rem_def)

text \<open>
  The double remainder is the representative of its argument in \<open>[0, 360)\<close>: the
  argument less the whole turns below it.
\<close>

lemma js_rem_360_360_floor:
  "js_rem (js_rem v 360 + 360) 360 = v - 360 * of_int \<lfloor>v / 360\<rfloor>"
proof -
  obtain k1 :: int where k1: "js_rem v 360 = v - 360 * of_int k1"
    using js_rem_shift by blast
  obtain k2 :: int where k2: "js_rem (js_rem v 360 + 360) 360 = js_rem v 360 + 360 - 360 * of_int k2"
    using js_rem_shift by blast
  define j where "j = k1 + k2 - 1"
  note k2
  also have "js_rem v 360 + 360 - 360 * of_int k2 = v - 360 * of_int j"
    by (simp add: k1 j_def algebra_simps)
  finally have m: "js_rem (js_rem v 360 + 360) 360 = v - 360 * of_int j" .
  from js_rem_360_360 [of v] have "0 \<le> v - 360 * of_int j" and "v - 360 * of_int j < 360"
    by (simp_all add: m)
  then have "of_int j \<le> v / 360" and "v / 360 < of_int j + 1"
    by (simp_all add: field_simps)
  then have "\<lfloor>v / 360\<rfloor> = j"
    by (rule floor_unique)
  with m show ?thesis by simp
qed

lemma normalizeAngle_Some:
  "normalizeAngle (Some v) = Some (v - 360 * of_int \<lfloor>v / 360\<rfloor>)"
  by (simp add: normalizeAngle_def mod_angle_def mod_num_def add_angle_def js_rem_360_360_floor)

lemma normalizeAngle_None: "normalizeAngle None = None"
  by (simp add: normalizeAngle_def mod_angle_def add_angle_def)

lemma edited_angle_Fin:
  "mod_angle (add_angle (mod_num (js_neg (Fin r)) 360) 360) 360
     = Some (- r - 360 * of_int \<lfloor>- r / 360\<rfloor>)"
  by (simp add: mod_angle_def mod_num_def add_angle_def js_neg_def js_rem_360_360_floor)

lemma edited_angle_infinite:
  "n = PInf \<or> n = NInf \<Longrightarrow> mod_angle (add_angle (mod_num (js_neg n) 360) 360) 360 = None"
  by (auto simp add: mod_angle_def mod_num_def add_angle_def js_neg_def)


lemma floor_in_first_turn: "0 \<le> v \<Longrightarrow> v < 360 \<Longrightarrow> \<lfloor>(v::real) / 360\<rfloor> = 0"
  by (intro floor_unique) simp_all

lemma floor_in_turn_below: "- 360 \<le> v \<Longrightarrow> v < 0 \<Longrightarrow> \<lfloor>(v::real) / 360\<rfloor> = - 1"
  by (intro floor_unique) simp_all

subsection \<open>Placing a laser\<close>

text \<open>
  C5: in every state, a click whose world position is at distance at most \<open>rs / zoom\<close>
  from the body center leaves the list of lasers and the id counter as they were.
\<close>

theorem click_inside_body_is_noop:
  "hypot (relativeX e s) (relativeY e s) \<le> rs s / zoom s \<Longrightarrow>
   lasers (handleCanvasClick e s) = lasers s \<and> nextId (handleCanvasClick e s) = nextId s"
  by (simp add: handleCanvasClick_def Let_def)

lemma sample_click_inside:
  "relativeX (pointer 400 400 0 False) two_lasers = 80"
  "relativeY (pointer 400 400 0 False) two_lasers = 0"
  "rs two_lasers / zoom two_lasers = 150"
  by (simp_all add: relativeX_def relativeY_def pointer_def two_lasers_def initial_state_def
      BH_CENTER_def rs_def BH_SIZE_def Let_def)

theorem click_inside_body_is_noop_witness:
  "hypot (relativeX (pointer 400 400 0 False) two_lasers)
         (relativeY (pointer 400 400 0 False) two_lasers) \<le> rs two_lasers / zoom two_lasers \<and>
   lasers (handleCanvasClick (pointer 400 400 0 False) two_lasers) = lasers two_lasers \<and>
   nextId (handleCanvasClick (pointer 400 400 0 False) two_lasers) = 2"
proof -
  have h: "hypot (relativeX (pointer 400 400 0 False) two_lasers)
         (relativeY (pointer 400 400 0 False) two_lasers) \<le> rs two_lasers / zoom two_lasers"
    by (simp add: sample_click_inside hypot_0_right)
  have "nextId two_lasers = 2" by (simp add: two_lasers_def)
  with h click_inside_body_is_noop [OF h] show ?thesis by simp
qed

text \<open>
  C6: a click that passes the guards of the handler and lies outside the body appends
  one laser to the scene, with \<open>fired\<close> set and with angle \<open>90\<close> when shift is held
  and \<open>0\<close> otherwise.
\<close>

theorem qualifying_click_appends_fired_laser:
  "\<not> wasPanning s \<Longrightarrow> \<not> isDragging s \<Longrightarrow> \<not> isPanning s \<Longrightarrow>
   hypot (relativeX e s) (relativeY e s) > rs s / zoom s \<Longrightarrow>
   lasers (handleCanvasClick e s) =
     lasers s @ [\<lparr>laser_id = nextId s, laser_x = Fin (relativeX e s),
                  laser_y = Fin (relativeY e s), laser_fired = True,
                  laser_angle = Some (if shiftKey e then 90 else 0),
                  laser_direction = Right\<rparr>]"
  by (simp add: handleCanvasClick_def Let_def)

lemma sample_click_outside:
  "relativeX (pointer 700 400 0 True) initial_state = 380"
  "relativeY (pointer 700 400 0 True) initial_state = 0"
  "rs initial_state / zoom initial_state = 150"
  by (simp_all add: relativeX_def relativeY_def pointer_def initial_state_def
      BH_CENTER_def rs_def BH_SIZE_def Let_def)

theorem qualifying_click_appends_fired_laser_witness:
  "\<not> wasPanning initial_state \<and> \<not> isDragging initial_state \<and> \<not> isPanning initial_state \<and>
   hypot (relativeX (pointer 700 400 0 True) initial_state)
         (relativeY (pointer 700 400 0 True) initial_state) > rs initial_state / zoom initial_state \<and>
   lasers (handleCanvasClick (pointer 700 400 0 True) initial_state) =
     [\<lparr>laser_id = 0, laser_x = Fin 380, laser_y = Fin 0, laser_fired = True,
       laser_angle = Some 90, laser_direction = Right\<rparr>]"
proof -
  have f: "\<not> wasPanning initial_state" "\<not> isDragging initial_state" "\<not> isPanning initial_state"
    by (simp_all add: initial_state_def)
  have h: "hypot (relativeX (pointer 700 400 0 True) initial_state)
         (relativeY (pointer 700 400 0 True) initial_state) > rs initial_state / zoom initial_state"
    by (simp add: sample_click_outside hypot_0_right)
  have "lasers initial_state = []" "nextId initial_state = 0" "shiftKey (pointer 700 400 0 True)"
    by (simp_all add: initial_state_def pointer_def)
  with f h qualifying_click_appends_fired_laser [OF f h] show ?thesis
    by (simp add: sample_click_outside)
qed

subsection \<open>The coordinate editor\<close>

lemma edited_laser_Fin:
  "edited_laser Field_x (Fin r) b l = l\<lparr>laser_x := Fin (r * b)\<rparr>"
  "edited_laser Field_y (Fin r) b l = l\<lparr>laser_y := Fin (- r * b)\<rparr>"
  "edited_laser Field_angle (Fin r) b l
     = l\<lparr>laser_angle := Some (- r - 360 * of_int \<lfloor>- r / 360\<rfloor>)\<rparr>"
proof -
  show "edited_laser Field_x (Fin r) b l = l\<lparr>laser_x := Fin (r * b)\<rparr>"
    by (simp add: js_mul_def)
  show "edited_laser Field_y (Fin r) b l = l\<lparr>laser_y := Fin (- r * b)\<rparr>"
    by (simp add: js_mul_def js_neg_def)
  show "edited_laser Field_angle (Fin r) b l
     = l\<lparr>laser_angle := Some (- r - 360 * of_int \<lfloor>- r / 360\<rfloor>)\<rparr>"
    unfolding edited_laser.simps edited_angle_Fin ..
qed

lemma handleLaserEdit_lasers:
  "lasers (handleLaserEdit lib fld v s) =
     (case editingLaserId s of
        None \<Rightarrow> lasers s
      | Some editing \<Rightarrow>
          if parseFloat lib v \<noteq> NaN
          then map (\<lambda>laser. if laser_id laser = editing
                            then edited_laser fld (parseFloat lib v) (BH_SIZE s * 0.25) laser
                            else laser) (lasers s)
          else lasers s)"
  by (simp add: handleLaserEdit_def Let_def split: option.splits)

text \<open>
  C7: while a laser is being edited, a field value that does not parse as a number
  (\<^verbatim>\<open>parseFloat\<close> gives \<^verbatim>\<open>NaN\<close>) changes the staged text and nothing else, so every
  laser keeps its committed values.  A value that parses to the number \<open>r\<close> is staged
  and written to the edited laser in the same update: the field \<open>x\<close> becomes \<open>r * rs\<close>,
  the field \<open>y\<close> becomes \<open>- r * rs\<close>, the angle becomes the representative of \<open>- r\<close> in
  \<open>[0, 360)\<close>, and nothing else changes.  A value that parses to an infinity passes the
  guard as well: it is committed, as an infinite position or as the angle \<^verbatim>\<open>NaN\<close>.
\<close>

theorem laser_edit_commits_only_numbers:
  "editingLaserId s = Some editing \<Longrightarrow>
   (parseFloat lib v = NaN \<longrightarrow>
      handleLaserEdit lib fld v s =
        s\<lparr>tempInputValues :=
            (case fld of Field_x \<Rightarrow> (tempInputValues s)\<lparr>input_x := v\<rparr>
             | Field_y \<Rightarrow> (tempInputValues s)\<lparr>input_y := v\<rparr>
             | Field_angle \<Rightarrow> (tempInputValues s)\<lparr>input_angle := v\<rparr>)\<rparr> \<and>
      lasers (handleLaserEdit lib fld v s) = lasers s) \<and>
   (parseFloat lib w = Fin r \<longrightarrow>
      handleLaserEdit lib fld w s =
        s\<lparr>tempInputValues :=
            (case fld of Field_x \<Rightarrow> (tempInputValues s)\<lparr>input_x := w\<rparr>
             | Field_y \<Rightarrow> (tempInputValues s)\<lparr>input_y := w\<rparr>
             | Field_angle \<Rightarrow> (tempInputValues s)\<lparr>input_angle := w\<rparr>),
          lasers :=
            map (\<lambda>laser. if laser_id laser = editing
                          then (case fld of
                                  Field_x \<Rightarrow> laser\<lparr>laser_x := Fin (r * (BH_SIZE s * 0.25))\<rparr>
                                | Field_y \<Rightarrow> laser\<lparr>laser_y := Fin (- r * (BH_SIZE s * 0.25))\<rparr>
                                | Field_angle \<Rightarrow>
                                    laser\<lparr>laser_angle :=
                                            Some (- r - 360 * of_int \<lfloor>- r / 360\<rfloor>)\<rparr>)
                          else laser) (lasers s)\<rparr>) \<and>
   (parseFloat lib u = PInf \<or> parseFloat lib u = NInf \<longrightarrow>
      lasers (handleLaserEdit lib fld u s) =
        map (\<lambda>laser. if laser_id laser = editing
                      then (case fld of
                              Field_x \<Rightarrow>
                                laser\<lparr>laser_x := js_mul (parseFloat lib u) (BH_SIZE s * 0.25)\<rparr>
                            | Field_y \<Rightarrow>
                                laser\<lparr>laser_y :=
                                        js_mul (js_neg (parseFloat lib u)) (BH_SIZE s * 0.25)\<rparr>
                            | Field_angle \<Rightarrow> laser\<lparr>laser_angle := None\<rparr>)
                      else laser) (lasers s))"
proof (intro conjI impI)
  assume e: "editingLaserId s = Some editing"
  {
    assume "parseFloat lib v = NaN"
    with e show "handleLaserEdit lib fld v s =
        s\<lparr>tempInputValues :=
            (case fld of Field_x \<Rightarrow> (tempInputValues s)\<lparr>input_x := v\<rparr>
             | Field_y \<Rightarrow> (tempInputValues s)\<lparr>input_y := v\<rparr>
             | Field_angle \<Rightarrow> (tempInputValues s)\<lparr>input_angle := v\<rparr>)\<rparr>"
      by (cases fld) (simp_all add: handleLaserEdit_def Let_def)
  next
    assume "parseFloat lib v = NaN"
    with e show "lasers (handleLaserEdit lib fld v s) = lasers s"
      by (simp add: handleLaserEdit_lasers)
  next
    assume "parseFloat lib w = Fin r"
    with e show "handleLaserEdit lib fld w s =
        s\<lparr>tempInputValues :=
            (case fld of Field_x \<Rightarrow> (tempInputValues s)\<lparr>input_x := w\<rparr>
             | Field_y \<Rightarrow> (tempInputValues s)\<lparr>input_y := w\<rparr>
             | Field_angle \<Rightarrow> (tempInputValues s)\<lparr>input_angle := w\<rparr>),
          lasers :=
            map (\<lambda>laser. if laser_id laser = editing
                          then (case fld of
                                  Field_x \<Rightarrow> laser\<lparr>laser_x := Fin (r * (BH_SIZE s * 0.25))\<rparr>
                                | Field_y \<Rightarrow> laser\<lparr>laser_y := Fin (- r * (BH_SIZE s * 0.25))\<rparr>
                                | Field_angle \<Rightarrow>
                                    laser\<lparr>laser_angle :=
                                            Some (- r - 360 * of_int \<lfloor>- r / 360\<rfloor>)\<rparr>)
                          else laser) (lasers s)\<rparr>"
      by (cases fld)
        (simp_all add: handleLaserEdit_def Let_def edited_laser_Fin del: edited_laser.simps)
  next
    assume "parseFloat lib u = PInf \<or> parseFloat lib u = NInf"
    with e show "lasers (handleLaserEdit lib fld u s) =
        map (\<lambda>laser. if laser_id laser = editing
                      then (case fld of
                              Field_x \<Rightarrow>
                                laser\<lparr>laser_x := js_mul (parseFloat lib u) (BH_SIZE s * 0.25)\<rparr>
                            | Field_y \<Rightarrow>
                                laser\<lparr>laser_y :=
                                        js_mul (js_neg (parseFloat lib u)) (BH_SIZE s * 0.25)\<rparr>
                            | Field_angle \<Rightarrow> laser\<lparr>laser_angle := None\<rparr>)
                      else laser) (lasers s)"
      by (cases fld) (auto simp add: handleLaserEdit_lasers edited_angle_infinite)
  }
qed

lemmas parse_defs = parseFloat_ascii_def decimal_value_def exponent_part_def digits_value_def
  digit_value_def is_digit_def is_space_def js_neg_def rounds_to_infinity_def Let_def

lemma sample_parse:
  "parseFloat sample_lib ''abc'' = NaN"
  "parseFloat sample_lib ''2.5'' = Fin (5/2)"
  "parseFloat sample_lib ''-45'' = Fin (- 45)"
  "parseFloat sample_lib ''Infinity'' = PInf"
  by (simp_all add: sample_lib_def parse_defs)

theorem laser_edit_commits_only_numbers_witness:
  "editingLaserId (two_lasers\<lparr>editingLaserId := Some 1\<rparr>) = Some 1 \<and>
   parseFloat sample_lib ''abc'' = NaN \<and>
   lasers (handleLaserEdit sample_lib Field_x ''abc'' (two_lasers\<lparr>editingLaserId := Some 1\<rparr>))
     = lasers two_lasers \<and>
   tempInputValues (handleLaserEdit sample_lib Field_x ''abc'' (two_lasers\<lparr>editingLaserId := Some 1\<rparr>))
     = \<lparr>input_x = ''abc'', input_y = [], input_angle = []\<rparr> \<and>
   parseFloat sample_lib ''2.5'' = Fin (5/2) \<and>
   lasers (handleLaserEdit sample_lib Field_x ''2.5'' (two_lasers\<lparr>editingLaserId := Some 1\<rparr>))
     = [\<lparr>laser_id = 0, laser_x = Fin 380, laser_y = Fin 0, laser_fired = True,
         laser_angle = Some 90, laser_direction = Right\<rparr>,
        \<lparr>laser_id = 1, laser_x = Fin 375, laser_y = Fin 200, laser_fired = True,
         laser_angle = Some 0, laser_direction = Right\<rparr>] \<and>
   lasers (handleLaserEdit sample_lib Field_y ''2.5'' (two_lasers\<lparr>editingLaserId := Some 1\<rparr>))
     = [\<lparr>laser_id = 0, laser_x = Fin 380, laser_y = Fin 0, laser_fired = True,
         laser_angle = Some 90, laser_direction = Right\<rparr>,
        \<lparr>laser_id = 1, laser_x = Fin 0, laser_y = Fin (- 375), laser_fired = True,
         laser_angle = Some 0, laser_direction = Right\<rparr>] \<and>
   parseFloat sample_lib ''-45'' = Fin (- 45) \<and>
   lasers (handleLaserEdit sample_lib Field_angle ''-45'' (two_lasers\<lparr>editingLaserId := Some 1\<rparr>))
     = [\<lparr>laser_id = 0, laser_x = Fin 380, laser_y = Fin 0, laser_fired = True,
         laser_angle = Some 90, laser_direction = Right\<rparr>,
        \<lparr>laser_id = 1, laser_x = Fin 0, laser_y = Fin 200, laser_fired = True,
         laser_angle = Some 45, laser_direction = Right\<rparr>] \<and>
   parseFloat sample_lib ''Infinity'' = PInf \<and>
   lasers (handleLaserEdit sample_lib Field_x ''Infinity'' (two_lasers\<lparr>editingLaserId := Some 1\<rparr>))
     = [\<lparr>laser_id = 0, laser_x = Fin 380, laser_y = Fin 0, laser_fired = True,
         laser_angle = Some 90, laser_direction = Right\<rparr>,
        \<lparr>laser_id = 1, laser_x = PInf, laser_y = Fin 200, laser_fired = True,
         laser_angle = Some 0, laser_direction = Right\<rparr>]"
proof -
  let ?s = "two_lasers\<lparr>editingLaserId := Some 1\<rparr>"
  have e: "editingLaserId ?s = Some 1" by simp
  have b: "BH_SIZE ?s * 0.25 = 150"
    by (simp add: BH_SIZE_def two_lasers_def initial_state_def)
  have l: "lasers ?s = lasers two_lasers" and t: "tempInputValues ?s = tempInputValues two_lasers"
    by simp_all
  note x = laser_edit_commits_only_numbers
      [OF e, of sample_lib "''abc''" Field_x "''2.5''" "5/2" "''Infinity''"]
  note y = laser_edit_commits_only_numbers
      [OF e, of sample_lib "''abc''" Field_y "''2.5''" "5/2" "''Infinity''"]
  note a = laser_edit_commits_only_numbers
      [OF e, of sample_lib "''abc''" Field_angle "''-45''" "- 45" "''Infinity''"]
  from x sample_parse have x1: "handleLaserEdit sample_lib Field_x ''abc'' ?s
      = ?s\<lparr>tempInputValues := (tempInputValues ?s)\<lparr>input_x := ''abc''\<rparr>\<rparr>"
    and x2: "lasers (handleLaserEdit sample_lib Field_x ''2.5'' ?s)
      = map (\<lambda>laser. if laser_id laser = 1 then laser\<lparr>laser_x := Fin (5/2 * (BH_SIZE ?s * 0.25))\<rparr>
                       else laser) (lasers ?s)"
    and x3: "lasers (handleLaserEdit sample_lib Field_x ''Infinity'' ?s)
      = map (\<lambda>laser. if laser_id laser = 1
                       then laser\<lparr>laser_x := js_mul (parseFloat sample_lib ''Infinity'')
                                                  (BH_SIZE ?s * 0.25)\<rparr>
                       else laser) (lasers ?s)"
    by simp_all
  from y sample_parse have y2: "lasers (handleLaserEdit sample_lib Field_y ''2.5'' ?s)
      = map (\<lambda>laser. if laser_id laser = 1 then laser\<lparr>laser_y := Fin (- (5/2) * (BH_SIZE ?s * 0.25))\<rparr>
                       else laser) (lasers ?s)"
    by simp
  from a sample_parse have a2: "lasers (handleLaserEdit sample_lib Field_angle ''-45'' ?s)
      = map (\<lambda>laser. if laser_id laser = 1
                       then laser\<lparr>laser_angle := Some (- (- 45) - 360 * of_int \<lfloor>- (- 45) / 360 :: real\<rfloor>)\<rparr>
                       else laser) (lasers ?s)"
    by simp
  have f: "\<lfloor>45 / 360 :: real\<rfloor> = 0"
    by (rule floor_in_first_turn) simp_all
  show ?thesis
    unfolding x1 x2 x3 y2 a2 b l t
    by (simp add: sample_parse two_lasers_def initial_state_def js_mul_def f)
qed

subsection \<open>Rotating and dragging\<close>

text \<open>
  C10: a move step of a rotation changes nothing but the angle of the lasers whose id
  is the rotated one; a move step of a drag changes nothing but the position of the
  lasers whose id is the dragged one.  Ids, \<open>fired\<close>, \<open>direction\<close>, the other lasers
  and the id counter are as before.
\<close>

theorem gesture_moves_are_framed:
  "(rotatingLaserId s = Some rotating \<and> lastMouseX s = Some lastX \<longrightarrow>
      nextId (handleMouseMove e s) = nextId s \<and>
      list_all2 (\<lambda>l l'. laser_id l' = laser_id l \<and> laser_x l' = laser_x l \<and>
                   laser_y l' = laser_y l \<and> laser_fired l' = laser_fired l \<and>
                   laser_direction l' = laser_direction l \<and>
                   (laser_id l \<noteq> rotating \<longrightarrow> l' = l))
        (lasers s) (lasers (handleMouseMove e s))) \<and>
   ((rotatingLaserId t = None \<or> lastMouseX t = None) \<and> isDragging t \<and>
    draggedLaserId t = Some dragged \<longrightarrow>
      nextId (handleMouseMove e t) = nextId t \<and>
      list_all2 (\<lambda>l l'. laser_id l' = laser_id l \<and> laser_angle l' = laser_angle l \<and>
                   laser_fired l' = laser_fired l \<and>
                   laser_direction l' = laser_direction l \<and>
                   (laser_id l \<noteq> dragged \<longrightarrow> l' = l))
        (lasers t) (lasers (handleMouseMove e t)))"
  by (auto simp add: handleMouseMove_def Let_def list_all2_map2 list_all2_same)

lemma rotated_angle:
  "normalizeAngle (add_angle a d) =
     (case a of Some v \<Rightarrow> Some (v + d - 360 * of_int \<lfloor>(v + d) / 360\<rfloor>) | None \<Rightarrow> None)"
  by (cases a) (simp_all add: add_angle_def normalizeAngle_Some normalizeAngle_None)

lemma handleMouseMove_rotating:
  "rotatingLaserId t = Some rotating \<Longrightarrow> lastMouseX t = Some lastX \<Longrightarrow>
   lasers (handleMouseMove m t) =
     map (\<lambda>l. if laser_id l = rotating
               then l\<lparr>laser_angle :=
                      (case laser_angle l of
                         Some a \<Rightarrow> Some (a + (clientX m - lastX) * 0.5
                                     - 360 * of_int \<lfloor>(a + (clientX m - lastX) * 0.5) / 360\<rfloor>)
                       | None \<Rightarrow> None)\<rparr>
               else l) (lasers t)"
  by (simp add: handleMouseMove_def Let_def rotated_angle cong: option.case_cong)

lemma sample_rotation:
  "lasers (handleMouseMove (pointer 500 400 2 False)
             (two_lasers\<lparr>rotatingLaserId := Some 0, lastMouseX := Some 700\<rparr>))
     = [\<lparr>laser_id = 0, laser_x = Fin 380, laser_y = Fin 0, laser_fired = True,
         laser_angle = Some 350, laser_direction = Right\<rparr>,
        \<lparr>laser_id = 1, laser_x = Fin 0, laser_y = Fin 200, laser_fired = True,
         laser_angle = Some 0, laser_direction = Right\<rparr>]"
proof -
  have f: "\<lfloor>- 10 / 360 :: real\<rfloor> = - 1"
    by (rule floor_in_turn_below) simp_all
  have "lasers (handleMouseMove (pointer 500 400 2 False)
             (two_lasers\<lparr>rotatingLaserId := Some 0, lastMouseX := Some 700\<rparr>))
     = map (\<lambda>l. if laser_id l = 0
               then l\<lparr>laser_angle :=
                      (case laser_angle l of
                         Some a \<Rightarrow> Some (a + (clientX (pointer 500 400 2 False) - 700) * 0.5
                                     - 360 * of_int \<lfloor>(a + (clientX (pointer 500 400 2 False) - 700) * 0.5) / 360\<rfloor>)
                       | None \<Rightarrow> None)\<rparr>
               else l) (lasers (two_lasers\<lparr>rotatingLaserId := Some 0, lastMouseX := Some 700\<rparr>))"
    by (rule handleMouseMove_rotating) simp_all
  also have "\<dots> = [\<lparr>laser_id = 0, laser_x = Fin 380, laser_y = Fin 0, laser_fired = True,
         laser_angle = Some (- 10 - 360 * of_int \<lfloor>- 10 / 360 :: real\<rfloor>), laser_direction = Right\<rparr>,
        \<lparr>laser_id = 1, laser_x = Fin 0, laser_y = Fin 200, laser_fired = True,
         laser_angle = Some 0, laser_direction = Right\<rparr>]"
    by (simp add: two_lasers_def initial_state_def pointer_def del: floor_minus_divide_eq_div_numeral)
  finally show ?thesis by (simp add: f del: floor_minus_divide_eq_div_numeral)
qed

lemma sample_drag:
  "lasers (handleMouseMove (pointer 120 500 0 False)
             (two_lasers\<lparr>isDragging := True, draggedLaserId := Some 1\<rparr>))
     = [\<lparr>laser_id = 0, laser_x = Fin 380, laser_y = Fin 0, laser_fired = True,
         laser_angle = Some 90, laser_direction = Right\<rparr>,
        \<lparr>laser_id = 1, laser_x = Fin (- 200), laser_y = Fin 100, laser_fired = True,
         laser_angle = Some 0, laser_direction = Right\<rparr>]"
  by (simp add: handleMouseMove_def Let_def two_lasers_def initial_state_def pointer_def
      relativeX_def relativeY_def BH_CENTER_def)

theorem gesture_moves_are_framed_witness:
  "rotatingLaserId (two_lasers\<lparr>rotatingLaserId := Some 0, lastMouseX := Some 700\<rparr>) = Some 0 \<and>
   lastMouseX (two_lasers\<lparr>rotatingLaserId := Some 0, lastMouseX := Some 700\<rparr>) = Some 700 \<and>
   list_all2 (\<lambda>l l'. laser_id l' = laser_id l \<and> laser_x l' = laser_x l \<and>
                laser_y l' = laser_y l \<and> laser_fired l' = laser_fired l \<and>
                laser_direction l' = laser_direction l \<and>
                (laser_id l \<noteq> 0 \<longrightarrow> l' = l))
     (lasers two_lasers)
     [\<lparr>laser_id = 0, laser_x = Fin 380, laser_y = Fin 0, laser_fired = True,
       laser_angle = Some 350, laser_direction = Right\<rparr>,
      \<lparr>laser_id = 1, laser_x = Fin 0, laser_y = Fin 200, laser_fired = True,
       laser_angle = Some 0, laser_direction = Right\<rparr>] \<and>
   rotatingLaserId (two_lasers\<lparr>isDragging := True, draggedLaserId := Some 1\<rparr>) = None \<and>
   isDragging (two_lasers\<lparr>isDragging := True, draggedLaserId := Some 1\<rparr>) \<and>
   draggedLaserId (two_lasers\<lparr>isDragging := True, draggedLaserId := Some 1\<rparr>) = Some 1 \<and>
   list_all2 (\<lambda>l l'. laser_id l' = laser_id l \<and> laser_angle l' = laser_angle l \<and>
                laser_fired l' = laser_fired l \<and>
                laser_direction l' = laser_direction l \<and>
                (laser_id l \<noteq> 1 \<longrightarrow> l' = l))
     (lasers two_lasers)
     [\<lparr>laser_id = 0, laser_x = Fin 380, laser_y = Fin 0, laser_fired = True,
       laser_angle = Some 90, laser_direction = Right\<rparr>,
      \<lparr>laser_id = 1, laser_x = Fin (- 200), laser_y = Fin 100, laser_fired = True,
       laser_angle = Some 0, laser_direction = Right\<rparr>]"
proof -
  let ?s = "two_lasers\<lparr>rotatingLaserId := Some 0, lastMouseX := Some 700\<rparr>"
  let ?t = "two_lasers\<lparr>isDragging := True, draggedLaserId := Some 1\<rparr>"
  have hs: "rotatingLaserId ?s = Some 0 \<and> lastMouseX ?s = Some 700"
    by simp
  have ht: "(rotatingLaserId ?t = None \<or> lastMouseX ?t = None) \<and> isDragging ?t \<and>
      draggedLaserId ?t = Some 1"
    by (simp add: two_lasers_def initial_state_def)
  have r: "rotatingLaserId ?t = None"
    by (simp add: two_lasers_def initial_state_def)
  have ls: "lasers ?s = lasers two_lasers" and lt: "lasers ?t = lasers two_lasers"
    by simp_all
  from gesture_moves_are_framed
    [of ?s 0 700 "pointer 500 400 2 False" ?t 1] hs
  have 1: "list_all2 (\<lambda>l l'. laser_id l' = laser_id l \<and> laser_x l' = laser_x l \<and>
                laser_y l' = laser_y l \<and> laser_fired l' = laser_fired l \<and>
                laser_direction l' = laser_direction l \<and>
                (laser_id l \<noteq> 0 \<longrightarrow> l' = l))
     (lasers ?s) (lasers (handleMouseMove (pointer 500 400 2 False) ?s))"
    by blast
  from gesture_moves_are_framed
    [of ?s 0 700 "pointer 120 500 0 False" ?t 1] ht
  have 2: "list_all2 (\<lambda>l l'. laser_id l' = laser_id l \<and> laser_angle l' = laser_angle l \<and>
                laser_fired l' = laser_fired l \<and>
                laser_direction l' = laser_direction l \<and>
                (laser_id l \<noteq> 1 \<longrightarrow> l' = l))
     (lasers ?t) (lasers (handleMouseMove (pointer 120 500 0 False) ?t))"
    by blast
  from 1 2 hs ht r show ?thesis
    unfolding sample_rotation sample_drag ls lt by blast
qed

section \<open>Invariants of the scene\<close>

subsection \<open>Angles\<close>






lemma run_snoc: "run lib s (es @ [e]) = dispatch lib e (run lib s es)"
  by (induction es arbitrary: s) simp_all






subsection \<open>Ids\<close>

lemma edited_laser_id: "laser_id (edited_laser fld n r l) = laser_id l"
  by (cases fld) simp_all

lemma map_keeps_ids:
  "(\<And>l. laser_id (f l) = laser_id l) \<Longrightarrow> map laser_id (map f ls) = map laser_id ls"
  by (induction ls) simp_all

lemma ids_handleLaserEdit:
  "map laser_id (lasers (handleLaserEdit lib fld v s)) = map laser_id (lasers s)"
  by (simp add: handleLaserEdit_def Let_def edited_laser_id map_keeps_ids
      split: option.splits)

lemma ids_handleMouseMove:
  "map laser_id (lasers (handleMouseMove m s)) = map laser_id (lasers s)"
  by (simp add: handleMouseMove_def Let_def map_keeps_ids)

lemma ids_handleLaserMouseDown:
  "lasers (handleLaserMouseDown lib m i s) = lasers s"
  by (simp add: handleLaserMouseDown_def Let_def split: option.splits)

lemma nextId_handleLaserEdit: "nextId (handleLaserEdit lib fld v s) = nextId s"
  by (simp add: handleLaserEdit_def Let_def split: option.splits)

lemma nextId_handleMouseMove: "nextId (handleMouseMove m s) = nextId s"
  by (simp add: handleMouseMove_def Let_def)

lemma nextId_handleLaserMouseDown: "nextId (handleLaserMouseDown lib m i s) = nextId s"
  by (simp add: handleLaserMouseDown_def Let_def split: option.splits)

lemma dispatch_ids:
  "(map laser_id (lasers (dispatch lib e s)) = map laser_id (lasers s) @ [nextId s] \<and>
      nextId (dispatch lib e s) = nextId s + 1) \<or>
   ((\<exists>P. map laser_id (lasers (dispatch lib e s)) = filter P (map laser_id (lasers s))) \<and>
      nextId (dispatch lib e s) = nextId s)"
proof (cases e)
  case (CanvasClick m)
  have "filter (\<lambda>_. True) (map laser_id (lasers s)) = map laser_id (lasers s)" by simp
  then show ?thesis
    unfolding CanvasClick by (auto simp add: handleCanvasClick_def Let_def intro: exI [of _ "\<lambda>_. True"])
next
  case (LaserDoubleClick i)
  have "map laser_id (filter (\<lambda>laser. laser_id laser \<noteq> i) (lasers s))
      = filter (\<lambda>j. j \<noteq> i) (map laser_id (lasers s))"
    by (simp add: filter_map comp_def)
  then show ?thesis
    unfolding LaserDoubleClick by (auto simp add: handleLaserDoubleClick_def)
next
  case CleanAll
  have "filter (\<lambda>_. False) (map laser_id (lasers s)) = []" by simp
  then show ?thesis
    unfolding CleanAll by (auto simp add: handleCleanAll_def intro: exI [of _ "\<lambda>_. False"])
qed (auto simp add: ids_handleLaserEdit ids_handleMouseMove ids_handleLaserMouseDown
      nextId_handleLaserEdit nextId_handleMouseMove nextId_handleLaserMouseDown
      handleWheel_def Let_def handleCloseLaserEdit_def handleMouseDown_def handleMouseUp_def
      intro: exI [of _ "\<lambda>_. True"])

lemma grown_or_filtered_fresh:
  fixes xs ys :: "int list"
  assumes "distinct xs" and "\<forall>i \<in> set xs. i < n"
    and "(ys = xs @ [n] \<and> n' = n + 1) \<or> ((\<exists>P. ys = filter P xs) \<and> n' = n)"
  shows "distinct ys \<and> (\<forall>i \<in> set ys. i < n')"
  using assms by fastforce

lemma grown_or_filtered_new:
  fixes xs ys :: "int list"
  assumes "(ys = xs @ [n] \<and> n' = n + 1) \<or> ((\<exists>P. ys = filter P xs) \<and> n' = n)"
    and "j \<in> set ys"
  shows "j \<in> set xs \<or> j = n"
  using assms by auto

lemma dispatch_fresh:
  assumes "ids_fresh s"
  shows "ids_fresh (dispatch lib e s)"
proof -
  from assms have d: "distinct (map laser_id (lasers s))"
    and b: "\<forall>i \<in> set (map laser_id (lasers s)). i < nextId s"
    by (simp_all add: ids_fresh_def)
  from grown_or_filtered_fresh [OF d b dispatch_ids [of lib e s]]
  show ?thesis by (simp add: ids_fresh_def)
qed

lemma dispatch_nextId: "nextId s \<le> nextId (dispatch lib e s)"
  using dispatch_ids [of lib e s] by auto

lemma dispatch_new_id:
  assumes "l \<in> set (lasers (dispatch lib e s))"
  shows "laser_id l \<in> set (map laser_id (lasers s)) \<or> laser_id l = nextId s"
proof -
  from assms have "laser_id l \<in> set (map laser_id (lasers (dispatch lib e s)))"
    by simp
  with dispatch_ids [of lib e s] show ?thesis
    by (rule grown_or_filtered_new)
qed

lemma run_fresh: "ids_fresh s \<Longrightarrow> ids_fresh (run lib s es)"
  by (induction es arbitrary: s) (simp_all add: dispatch_fresh)

lemma run_nextId: "nextId s \<le> nextId (run lib s es)"
proof (induction es arbitrary: s)
  case Nil
  show ?case by simp
next
  case (Cons e es)
  have "nextId s \<le> nextId (dispatch lib e s)" by (rule dispatch_nextId)
  also have "\<dots> \<le> nextId (run lib (dispatch lib e s) es)" by (rule Cons.IH)
  finally show ?case by simp
qed

lemma assigned_below_nextId:
  "ids_fresh s \<Longrightarrow> \<forall>i \<in> set (assigned_ids lib s es). i < nextId (run lib s es)"
proof (induction es arbitrary: s)
  case Nil
  then show ?case by (simp add: ids_fresh_def)
next
  case (Cons e es)
  have "nextId s \<le> nextId (run lib (dispatch lib e s) es)"
    using dispatch_nextId [of s lib e] run_nextId [of "dispatch lib e s" lib es] by linarith
  moreover have "\<forall>l \<in> set (lasers s). laser_id l < nextId s"
    using Cons.prems by (simp add: ids_fresh_def)
  moreover have "\<forall>i \<in> set (assigned_ids lib (dispatch lib e s) es).
      i < nextId (run lib (dispatch lib e s) es)"
    using Cons.prems by (intro Cons.IH dispatch_fresh)
  ultimately show ?case by fastforce
qed

text \<open>
  C9: after any sequence of events no two lasers of the scene share an id; every id that
  was in the scene at some moment of the run is below the counter \<open>nextId\<close>; no event
  lowers the counter; and a laser that the next event adds to the scene has an id above
  every id the scene has ever held, so neither a double click nor "clean all" frees an
  id.  (Ids are unbounded integers here; a JavaScript number stops counting at \<open>2\<^sup>5\<^sup>3\<close>.)
\<close>

theorem ids_unique_and_never_reused:
  "distinct (map laser_id (lasers (run lib initial_state es))) \<and>
   (\<forall>i \<in> set (assigned_ids lib initial_state es). i < nextId (run lib initial_state es)) \<and>
   nextId (run lib initial_state es) \<le> nextId (dispatch lib e (run lib initial_state es)) \<and>
   (\<forall>l \<in> set (lasers (dispatch lib e (run lib initial_state es))).
      laser_id l \<notin> set (map laser_id (lasers (run lib initial_state es))) \<longrightarrow>
      (\<forall>i \<in> set (assigned_ids lib initial_state es). i < laser_id l))"
proof -
  let ?s = "run lib initial_state es"
  have f0: "ids_fresh initial_state"
    by (simp add: ids_fresh_def initial_state_def)
  then have "ids_fresh ?s" by (rule run_fresh)
  then have d: "distinct (map laser_id (lasers ?s))"
    by (simp add: ids_fresh_def)
  have b: "\<forall>i \<in> set (assigned_ids lib initial_state es). i < nextId ?s"
    using f0 by (rule assigned_below_nextId)
  have m: "nextId ?s \<le> nextId (dispatch lib e ?s)"
    by (rule dispatch_nextId)
  have n: "\<forall>l \<in> set (lasers (dispatch lib e ?s)).
      laser_id l \<notin> set (map laser_id (lasers ?s)) \<longrightarrow>
      (\<forall>i \<in> set (assigned_ids lib initial_state es). i < laser_id l)"
    using b dispatch_new_id [of _ lib e ?s] by metis
  from d b m n show ?thesis by blast
qed

lemma sample_run_cleared:
  "lasers (run sample_lib initial_state sample_events) = []"
  "nextId (run sample_lib initial_state sample_events) = 1"
  "assigned_ids sample_lib initial_state sample_events = [0, 0, 0, 0]"
  by (simp_all add: sample_events_def pointer_def initial_state_def handleCanvasClick_def
      handleLaserMouseDown_def handleMouseMove_def handleMouseUp_def handleCleanAll_def
      Let_def relativeX_def relativeY_def
      BH_CENTER_def rs_def BH_SIZE_def hypot_0_right)

lemma sample_click_after_clear:
  "lasers (handleCanvasClick (pointer 700 400 0 False)
      (run sample_lib initial_state sample_events))
     = [\<lparr>laser_id = 1, laser_x = Fin 380, laser_y = Fin 0, laser_fired = True,
         laser_angle = Some 0, laser_direction = Right\<rparr>]"
  by (simp add: sample_events_def pointer_def initial_state_def handleCanvasClick_def
      handleLaserMouseDown_def handleMouseMove_def handleMouseUp_def handleCleanAll_def
      Let_def relativeX_def relativeY_def
      BH_CENTER_def rs_def BH_SIZE_def hypot_0_right)

theorem ids_unique_and_never_reused_witness:
  "assigned_ids sample_lib initial_state sample_events = [0, 0, 0, 0] \<and>
   lasers (run sample_lib initial_state sample_events) = [] \<and>
   lasers (dispatch sample_lib (CanvasClick (pointer 700 400 0 False))
      (run sample_lib initial_state sample_events))
     = [\<lparr>laser_id = 1, laser_x = Fin 380, laser_y = Fin 0, laser_fired = True,
         laser_angle = Some 0, laser_direction = Right\<rparr>] \<and>
   nextId (run sample_lib initial_state sample_events) = 1 \<and> (0::int) < 1"
  using ids_unique_and_never_reused
    [of sample_lib sample_events "CanvasClick (pointer 700 400 0 False)"]
  by (simp add: sample_run_cleared sample_click_after_clear)

end
